theory Spec2Isabelle
  imports Complex_Main "HOL-Library.AList"
begin

section \<open>Version comparator (src/ide.ts, isNewerVersion)\<close>

subsection \<open>JavaScript numbers as far as the comparator sees them\<close>

text \<open>
  \<^verbatim>\<open>remote.split(".").map(Number)\<close> turns every segment into an IEEE double. The
  comparator only compares these values with \<^verbatim>\<open><\<close> and \<^verbatim>\<open>>\<close>, so a double is
  represented by the rational it denotes, the two infinities, or NaN (\<open>-0\<close> and \<open>+0\<close>
  compare equal and are both \<open>Fin 0\<close>).
\<close>

datatype jsnum = NaN | NegInf | Fin rat | PosInf

fun js_lt :: "jsnum \<Rightarrow> jsnum \<Rightarrow> bool" where
  "js_lt NaN _ = False"
| "js_lt _ NaN = False"
| "js_lt NegInf NegInf = False"
| "js_lt NegInf _ = True"
| "js_lt (Fin a) (Fin b) = (a < b)"
| "js_lt (Fin a) PosInf = True"
| "js_lt (Fin a) NegInf = False"
| "js_lt PosInf _ = False"

definition js_gt :: "jsnum \<Rightarrow> jsnum \<Rightarrow> bool" where
  "js_gt a b = js_lt b a"

text \<open>
  \<^verbatim>\<open>String.prototype.split\<close> with a one-character separator: the result always has at
  least one element, \<^verbatim>\<open>"".split(".")\<close> is \<^verbatim>\<open>[""]\<close> and \<^verbatim>\<open>"1.".split(".")\<close> is
  \<^verbatim>\<open>["1", ""]\<close>.
\<close>

fun split_on :: "char \<Rightarrow> string \<Rightarrow> string list" where
  "split_on sep [] = [Nil]"
| "split_on sep (c # cs) =
     (if c = sep then [] # split_on sep cs
      else (case split_on sep cs of
              [] \<Rightarrow> [c] # []
            | p # ps \<Rightarrow> (c # p) # ps))"

definition is_digit :: "char \<Rightarrow> bool" where
  "is_digit c = (c \<in> set ''0123456789'')"

definition digit_value :: "char \<Rightarrow> nat" where
  "digit_value c = of_char c - 48"

definition dec_value :: "string \<Rightarrow> nat" where
  "dec_value s = foldl (\<lambda>acc c. 10 * acc + digit_value c) 0 s"

fun bit_length :: "nat \<Rightarrow> nat" where
  "bit_length n = (if n = 0 then 0 else Suc (bit_length (n div 2)))"

text \<open>
  The double nearest to a natural number (round to nearest, ties to even, 53 bits of
  significand, overflow to \<open>Infinity\<close>): what \<^verbatim>\<open>Number\<close> returns for a string of
  decimal digits. Below \<open>2^53\<close> every natural number is a double.
\<close>

definition to_double :: "nat \<Rightarrow> jsnum" where
  "to_double n =
     (if n < 2 ^ 53 then Fin (of_nat n)
      else
        let e = bit_length n - 53;
            q = n div 2 ^ e;
            r = n mod 2 ^ e;
            half = 2 ^ (e - 1);
            q' = (if half < r \<or> (r = half \<and> odd q) then q + 1 else q);
            v = q' * 2 ^ e
        in if 2 ^ 1024 \<le> v then PosInf else Fin (of_nat v))"

text \<open>
  \<^verbatim>\<open>Number(s)\<close> for a segment \<open>s\<close>. The empty string converts to \<open>0\<close> and a string
  of decimal digits to the double nearest to its value. Every other string (white
  space, signs, exponents, hexadecimal, \<^verbatim>\<open>Infinity\<close>, garbage) follows the rest of
  ECMAScript's StringToNumber grammar, which is not part of this repository: it is the
  parameter \<open>other\<close>, and every theorem below holds for all of its values.
\<close>

definition Number :: "(string \<Rightarrow> jsnum) \<Rightarrow> string \<Rightarrow> jsnum" where
  "Number other s =
     (if s = [] then Fin 0
      else if list_all is_digit s then to_double (dec_value s)
      else other s)"

text \<open>\<^verbatim>\<open>parts[i] ?? 0\<close>: an index past the end reads \<^verbatim>\<open>undefined\<close>, replaced by \<open>0\<close>.
  NaN is not nullish and stays NaN.\<close>

definition part_or_zero :: "jsnum list \<Rightarrow> nat \<Rightarrow> jsnum" where
  "part_or_zero parts i = (if i < length parts then parts ! i else Fin 0)"

function isNewerVersion_loop :: "jsnum list \<Rightarrow> jsnum list \<Rightarrow> nat \<Rightarrow> bool" where
  "isNewerVersion_loop remoteParts localParts i =
     (if i < max (length remoteParts) (length localParts) then
        (let remotePart = part_or_zero remoteParts i;
             localPart = part_or_zero localParts i
         in if js_gt remotePart localPart then True
            else if js_lt remotePart localPart then False
            else isNewerVersion_loop remoteParts localParts (Suc i))
      else False)"
  by pat_completeness auto
termination
  by (relation "measure (\<lambda>(r, l, i). max (length r) (length l) - i)") auto

declare isNewerVersion_loop.simps [simp del]

definition isNewerVersion :: "(string \<Rightarrow> jsnum) \<Rightarrow> string \<Rightarrow> string \<Rightarrow> bool" where
  "isNewerVersion other remote local =
     (let remoteParts = map (Number other) (split_on CHR ''.'' remote);
          localParts = map (Number other) (split_on CHR ''.'' local)
      in isNewerVersion_loop remoteParts localParts 0)"

subsection \<open>Dotted-numeric version strings\<close>

definition valid_version :: "string \<Rightarrow> bool" where
  "valid_version s = list_all (\<lambda>p. p \<noteq> [] \<and> list_all is_digit p) (split_on CHR ''.'' s)"

definition components :: "string \<Rightarrow> nat list" where
  "components s = map dec_value (split_on CHR ''.'' s)"

definition component_at :: "nat list \<Rightarrow> nat \<Rightarrow> nat" where
  "component_at cs i = (if i < length cs then cs ! i else 0)"

text \<open>The exact doubles of a list of small components (used to state the comparison on
  integers).\<close>

definition exact_parts :: "nat list \<Rightarrow> jsnum list" where
  "exact_parts cs = map (\<lambda>n. Fin (of_nat n)) cs"

text \<open>A conversion for the strings outside the modelled part of \<^verbatim>\<open>Number\<close>, for
  evaluating the comparator on concrete inputs: garbage converts to NaN.\<close>

definition nan_everywhere :: "string \<Rightarrow> jsnum" where
  "nan_everywhere s = NaN"

section \<open>The world the commands run in\<close>

subsection \<open>File system\<close>

text \<open>
  A path is its list of segments below the root. The templates are plain trees (no
  symbolic links), so the file system is a tree: a file with its text, or a directory
  with its entries in listing order.
\<close>

type_synonym path = "string list"

datatype node = File string | Dir "(string \<times> node) list"

datatype error = ENOENT | ENOTDIR | EISDIR | EEXIST | EINVAL | EBUSY
  | ExecFailed string

fun lookup :: "node \<Rightarrow> path \<Rightarrow> node option" where
  "lookup n [] = Some n"
| "lookup n (x # p) =
     (case n of
        File _ \<Rightarrow> None
      | Dir es \<Rightarrow> (case map_of es x of None \<Rightarrow> None | Some c \<Rightarrow> lookup c p))"

text \<open>\<^verbatim>\<open>mkdir(p, { recursive: true })\<close>: creates the directory and its missing parents;
  an existing directory is left as it is; a file in the way is an error.\<close>

fun mkdirp :: "node \<Rightarrow> path \<Rightarrow> error + node" where
  "mkdirp n [] = (case n of File _ \<Rightarrow> Inl EEXIST | Dir _ \<Rightarrow> Inr n)"
| "mkdirp n (x # p) =
     (case n of
        File _ \<Rightarrow> Inl ENOTDIR
      | Dir es \<Rightarrow>
          (case mkdirp (case map_of es x of None \<Rightarrow> Dir [] | Some c \<Rightarrow> c) p of
             Inl e \<Rightarrow> Inl e
           | Inr c' \<Rightarrow> Inr (Dir (AList.update x c' es))))"

text \<open>\<^verbatim>\<open>rm(p, { recursive: true, force: true })\<close>: removes the file or the whole
  subtree; a missing path is not an error.\<close>

fun rm_rf :: "node \<Rightarrow> path \<Rightarrow> error + node" where
  "rm_rf n [] = Inl EBUSY"
| "rm_rf n (x # p) =
     (case n of
        File _ \<Rightarrow> Inl ENOTDIR
      | Dir es \<Rightarrow>
          (if p = [] then Inr (Dir (AList.delete x es))
           else (case map_of es x of
                   None \<Rightarrow> Inr n
                 | Some c \<Rightarrow>
                     (case rm_rf c p of
                        Inl e \<Rightarrow> Inl e
                      | Inr c' \<Rightarrow> Inr (Dir (AList.update x c' es))))))"

definition read_file :: "node \<Rightarrow> path \<Rightarrow> error + string" where
  "read_file n p =
     (case lookup n p of
        None \<Rightarrow> Inl ENOENT
      | Some (Dir _) \<Rightarrow> Inl EISDIR
      | Some (File s) \<Rightarrow> Inr s)"

text \<open>\<^verbatim>\<open>writeFile(p, s)\<close>: creates or overwrites the file; the parent directory must
  exist.\<close>

fun write_file :: "node \<Rightarrow> path \<Rightarrow> string \<Rightarrow> error + node" where
  "write_file n [] s = Inl EISDIR"
| "write_file n (x # p) s =
     (case n of
        File _ \<Rightarrow> Inl ENOTDIR
      | Dir es \<Rightarrow>
          (if p = [] then
             (case map_of es x of
                Some (Dir _) \<Rightarrow> Inl EISDIR
              | _ \<Rightarrow> Inr (Dir (AList.update x (File s) es)))
           else (case map_of es x of
                   None \<Rightarrow> Inl ENOENT
                 | Some c \<Rightarrow>
                     (case write_file c p s of
                        Inl e \<Rightarrow> Inl e
                      | Inr c' \<Rightarrow> Inr (Dir (AList.update x c' es))))))"

text \<open>
  \<^verbatim>\<open>cp(src, dest)\<close> without \<^verbatim>\<open>recursive\<close>: copies one file, overwriting an existing
  file and creating the parent directories of the destination; a directory as source or
  as destination is an error.
\<close>

definition copy_file :: "node \<Rightarrow> path \<Rightarrow> path \<Rightarrow> error + node" where
  "copy_file n src dest =
     (case lookup n src of
        None \<Rightarrow> Inl ENOENT
      | Some s \<Rightarrow>
          (if src = dest then Inl EINVAL
           else if (case (s, lookup n dest) of
                      (File _, Some (Dir _)) \<Rightarrow> True
                    | (Dir _, Some (File _)) \<Rightarrow> True
                    | _ \<Rightarrow> False) then Inl EINVAL
           else (case mkdirp n (butlast dest) of
                   Inl e \<Rightarrow> Inl e
                 | Inr n' \<Rightarrow>
                     (case s of
                        Dir _ \<Rightarrow> Inl EISDIR
                      | File text \<Rightarrow> write_file n' dest text))))"

text \<open>\<^verbatim>\<open>readdir(p, { withFileTypes: true })\<close>: the entries with their kind
  (\<open>True\<close> for a directory).\<close>

definition list_dir :: "node \<Rightarrow> path \<Rightarrow> error + (string \<times> bool) list" where
  "list_dir n p =
     (case lookup n p of
        None \<Rightarrow> Inl ENOENT
      | Some (File _) \<Rightarrow> Inl ENOTDIR
      | Some (Dir es) \<Rightarrow>
          Inr (map (\<lambda>(name, c). (name, (case c of Dir _ \<Rightarrow> True | File _ \<Rightarrow> False))) es))"

subsection \<open>Effects and outcomes\<close>

text \<open>
  What the commands do to the outside: the file system, the lines handed to the
  \<^verbatim>\<open>output\<close> helper and to \<^verbatim>\<open>process.stdout\<close>, and the calls made to the
  collaborators (shell commands, mutating file-system calls, HTTP requests), in order.
  The spinner only animates the terminal and is left out.
\<close>

datatype msg = OutInfo string | OutSuccess string | OutError string | OutWarn string
  | StdoutWrite string

datatype call = Exec string | Mkdir path | Rm path | Cp path path
  | WriteFile path string | Fetch string | Ask string

record world =
  fs :: node
  out :: "msg list"
  calls :: "call list"

text \<open>
  A call returns a value, throws, or ends the process: \<^verbatim>\<open>process.exit(code)\<close>
  terminates Node at once, so nothing after it runs, neither the rest of the function
  nor a \<^verbatim>\<open>catch\<close> or \<^verbatim>\<open>finally\<close> block around it. \<open>None\<close> is a call that never
  returns.
\<close>

datatype 'a outcome = Returned 'a | Threw error | Exited nat

type_synonym 'a io = "world \<Rightarrow> ('a outcome \<times> world) option"

definition ret :: "'a \<Rightarrow> 'a io" where
  "ret x w = Some (Returned x, w)"

definition process_exit :: "nat \<Rightarrow> 'a io" where
  "process_exit code w = Some (Exited code, w)"

definition bind_io :: "'a io \<Rightarrow> ('a \<Rightarrow> 'b io) \<Rightarrow> 'b io" where
  "bind_io m f w =
     (case m w of
        None \<Rightarrow> None
      | Some (Returned x, w') \<Rightarrow> f x w'
      | Some (Threw e, w') \<Rightarrow> Some (Threw e, w')
      | Some (Exited code, w') \<Rightarrow> Some (Exited code, w'))"

text \<open>A block of statements, run in order until one throws or exits.\<close>

fun seq :: "unit io list \<Rightarrow> unit io" where
  "seq [] = ret ()"
| "seq (m # ms) = bind_io m (\<lambda>_. seq ms)"

text \<open>\<^verbatim>\<open>try { m } catch { h }\<close>\<close>

definition try_catch :: "'a io \<Rightarrow> (error \<Rightarrow> 'a io) \<Rightarrow> 'a io" where
  "try_catch m h w =
     (case m w of
        Some (Threw e, w') \<Rightarrow> h e w'
      | r \<Rightarrow> r)"

text \<open>\<^verbatim>\<open>try { m } finally { f }\<close>: the block \<open>f\<close> runs after \<open>m\<close> returned or threw, and
  its own throw or exit replaces the outcome of \<open>m\<close>; it does not run when \<open>m\<close> ended
  the process.\<close>

definition try_finally :: "'a io \<Rightarrow> unit io \<Rightarrow> 'a io" where
  "try_finally m f w =
     (case m w of
        None \<Rightarrow> None
      | Some (Exited code, w') \<Rightarrow> Some (Exited code, w')
      | Some (r, w') \<Rightarrow>
          (case f w' of
             None \<Rightarrow> None
           | Some (Returned _, w'') \<Rightarrow> Some (r, w'')
           | Some (Threw e, w'') \<Rightarrow> Some (Threw e, w'')
           | Some (Exited code, w'') \<Rightarrow> Some (Exited code, w'')))"

definition ignore :: "error \<Rightarrow> unit io" where
  "ignore e = ret ()"

definition fs_mutate :: "call \<Rightarrow> (node \<Rightarrow> error + node) \<Rightarrow> unit io" where
  "fs_mutate c f w =
     (let w' = w\<lparr>calls := calls w @ [c]\<rparr>
      in case f (fs w) of
           Inl e \<Rightarrow> Some (Threw e, w')
         | Inr n \<Rightarrow> Some (Returned (), w'\<lparr>fs := n\<rparr>))"

definition fs_query :: "(node \<Rightarrow> error + 'a) \<Rightarrow> 'a io" where
  "fs_query f w =
     (case f (fs w) of
        Inl e \<Rightarrow> Some (Threw e, w)
      | Inr x \<Rightarrow> Some (Returned x, w))"

definition access :: "path \<Rightarrow> unit io" where
  "access p = fs_query (\<lambda>n. if lookup n p = None then Inl ENOENT else Inr ())"

definition mkdir :: "path \<Rightarrow> unit io" where
  "mkdir p = fs_mutate (Mkdir p) (\<lambda>n. mkdirp n p)"

definition rm :: "path \<Rightarrow> unit io" where
  "rm p = fs_mutate (Rm p) (\<lambda>n. rm_rf n p)"

definition cp :: "path \<Rightarrow> path \<Rightarrow> unit io" where
  "cp src dest = fs_mutate (Cp src dest) (\<lambda>n. copy_file n src dest)"

definition readFile :: "path \<Rightarrow> string io" where
  "readFile p = fs_query (\<lambda>n. read_file n p)"

definition writeFile :: "path \<Rightarrow> string \<Rightarrow> unit io" where
  "writeFile p s = fs_mutate (WriteFile p s) (\<lambda>n. write_file n p s)"

definition readdir :: "path \<Rightarrow> (string \<times> bool) list io" where
  "readdir p = fs_query (\<lambda>n. list_dir n p)"

definition emit :: "msg \<Rightarrow> unit io" where
  "emit m w = Some (Returned (), w\<lparr>out := out w @ [m]\<rparr>)"

text \<open>\<^verbatim>\<open>join(base, "a/b")\<close> for the constant relative paths of the program.\<close>

definition join :: "path \<Rightarrow> string \<Rightarrow> path" where
  "join base rel = base @ filter (\<lambda>seg. seg \<noteq> []) (split_on CHR ''/'' rel)"

subsection \<open>copyDirectory (src/init.ts and src/ide.ts, the same text in both)\<close>

text \<open>
  \<^verbatim>\<open>
  async function copyDirectory(source, target) {
    const entries = await readdir(source, { withFileTypes: true });
    for (const entry of entries) {
      const sourcePath = join(source, entry.name);
      const targetPath = join(target, entry.name);
      if (entry.isDirectory()) {
        await mkdir(targetPath, { recursive: true });
        await copyDirectory(sourcePath, targetPath);
      } else {
        await cp(sourcePath, targetPath);
      }
    }
  }
  \<close>
  The function reads each directory when it reaches it, from the file system as the
  copy has changed it so far, so it need not return (a target inside the source). Its
  call stack is explicit here: a frame is a call with the entries its loop has still to
  visit.
\<close>

type_synonym frame = "path \<times> path \<times> (string \<times> bool) list"

partial_function (option) copyDirectory_run ::
  "frame list \<Rightarrow> world \<Rightarrow> (unit outcome \<times> world) option" where
  "copyDirectory_run stack w =
     (case stack of
        [] \<Rightarrow> Some (Returned (), w)
      | (source, target, []) # callers \<Rightarrow> copyDirectory_run callers w
      | (source, target, (name, isDirectory) # entries) # callers \<Rightarrow>
          (let sourcePath = source @ [name]; targetPath = target @ [name] in
           if isDirectory then
             (case mkdir targetPath w of
                None \<Rightarrow> None
              | Some (Threw e, w1) \<Rightarrow> Some (Threw e, w1)
              | Some (Exited code, w1) \<Rightarrow> Some (Exited code, w1)
              | Some (Returned _, w1) \<Rightarrow>
                  (case readdir sourcePath w1 of
                     None \<Rightarrow> None
                   | Some (Threw e, w2) \<Rightarrow> Some (Threw e, w2)
                   | Some (Exited code, w2) \<Rightarrow> Some (Exited code, w2)
                   | Some (Returned sub, w2) \<Rightarrow>
                       copyDirectory_run
                         ((sourcePath, targetPath, sub) # (source, target, entries) # callers) w2))
           else
             (case cp sourcePath targetPath w of
                None \<Rightarrow> None
              | Some (Threw e, w1) \<Rightarrow> Some (Threw e, w1)
              | Some (Exited code, w1) \<Rightarrow> Some (Exited code, w1)
              | Some (Returned _, w1) \<Rightarrow>
                  copyDirectory_run ((source, target, entries) # callers) w1)))"

definition copyDirectory :: "path \<Rightarrow> path \<Rightarrow> unit io" where
  "copyDirectory source target =
     bind_io (readdir source) (\<lambda>entries. copyDirectory_run [(source, target, entries)])"

declare copyDirectory_run.simps [code]

section \<open>Strings\<close>

definition nl :: string where
  "nl = [CHR 0x0A]"

definition starts_with :: "string \<Rightarrow> string \<Rightarrow> bool" where
  "starts_with s p = (take (length p) s = p)"

fun str_includes :: "string \<Rightarrow> string \<Rightarrow> bool" where
  "str_includes [] p = (p = [])"
| "str_includes (c # cs) p = (starts_with (c # cs) p \<or> str_includes cs p)"

text \<open>\<^verbatim>\<open>toLowerCase\<close> on the ASCII letters; a character outside ASCII is left as it
  is (the only characters that lower to \<open>y\<close>, the letter the confirmations test for,
  are \<open>y\<close> and \<open>Y\<close>).\<close>

definition lower_char :: "char \<Rightarrow> char" where
  "lower_char c =
     (case map_of (zip ''ABCDEFGHIJKLMNOPQRSTUVWXYZ'' ''abcdefghijklmnopqrstuvwxyz'') c of
        None \<Rightarrow> c
      | Some l \<Rightarrow> l)"

definition toLowerCase :: "string \<Rightarrow> string" where
  "toLowerCase s = map lower_char s"

definition is_space :: "char \<Rightarrow> bool" where
  "is_space c = (c \<in> set [CHR '' '', CHR 0x09, CHR 0x0A, CHR 0x0B, CHR 0x0C, CHR 0x0D])"

text \<open>\<^verbatim>\<open>trim\<close>, on the ASCII white space.\<close>

definition trim :: "string \<Rightarrow> string" where
  "trim s = rev (dropWhile is_space (rev (dropWhile is_space s)))"

text \<open>\<^verbatim>\<open>s.split("\n")[0]\<close>\<close>

definition first_line :: "string \<Rightarrow> string" where
  "first_line s = takeWhile (\<lambda>c. c \<noteq> CHR 0x0A) s"

text \<open>\<^verbatim>\<open>s.replace(pat, rep)\<close> with a string pattern: the first occurrence only.\<close>

fun replace_first :: "string \<Rightarrow> string \<Rightarrow> string \<Rightarrow> string" where
  "replace_first [] pat rep = (if pat = [] then rep else [])"
| "replace_first (c # cs) pat rep =
     (if starts_with (c # cs) pat then rep @ drop (length pat) (c # cs)
      else c # replace_first cs pat rep)"

text \<open>Group 1 of \<^verbatim>\<open>/v?(\d+)/\<close>: the first run of decimal digits, if there is one.\<close>

definition match_digits :: "string \<Rightarrow> string option" where
  "match_digits s =
     (let ds = takeWhile is_digit (dropWhile (\<lambda>c. \<not> is_digit c) s)
      in if ds = [] then None else Some ds)"

text \<open>Group 1 of \<^verbatim>\<open>/Python (\d+)/\<close>: the digits after the first \<^verbatim>\<open>"Python "\<close> that
  is followed by a digit.\<close>

fun match_python :: "string \<Rightarrow> string option" where
  "match_python [] = None"
| "match_python (c # cs) =
     (let ds = takeWhile is_digit (drop 7 (c # cs))
      in if starts_with (c # cs) ''Python '' \<and> ds \<noteq> [] then Some ds
         else match_python cs)"

definition digit_char :: "nat \<Rightarrow> char" where
  "digit_char d = ''0123456789'' ! d"

text \<open>The decimal text of a number, as a template literal prints \<^verbatim>\<open>Date.now()\<close>.\<close>

fun show_nat :: "nat \<Rightarrow> string" where
  "show_nat n = (if n < 10 then [digit_char n] else show_nat (n div 10) @ [digit_char (n mod 10)])"

declare show_nat.simps [simp del]

definition path_string :: "path \<Rightarrow> string" where
  "path_string p = concat (map (\<lambda>seg. CHR ''/'' # seg) p)"

section \<open>The environment of a run\<close>

text \<open>
  Everything the commands read from outside the file system: the platform, what a shell
  command prints (\<open>None\<close> when it fails), the working directory, the clock, the
  line that \<^verbatim>\<open>question\<close> resolves to when the user is asked, what \<^verbatim>\<open>git clone\<close> delivers (\<open>None\<close> when it fails), what an
  HTTP GET returns (\<open>None\<close> for a network error or a status that is not ok), the
  \<^verbatim>\<open>version\<close> field of a JSON text (\<open>None\<close> when the text does not parse or has no
  such field), Node's \<^verbatim>\<open>path.resolve\<close>, the directory the package is installed in,
  and the part of \<^verbatim>\<open>Number\<close> that is not modelled.
\<close>

record env =
  platform :: string
  exec_stdout :: "string \<Rightarrow> string option"
  cwd :: path
  now :: nat
  answer :: string
  template :: "(string \<times> node) list option"
  http_get :: "string \<Rightarrow> string option"
  json_version :: "string \<Rightarrow> string option"
  resolve :: "path \<Rightarrow> string \<Rightarrow> path"
  packageRoot :: path
  number_other :: "string \<Rightarrow> jsnum"

definition execAsync :: "env \<Rightarrow> string \<Rightarrow> string io" where
  "execAsync env cmd w =
     (let w' = w\<lparr>calls := calls w @ [Exec cmd]\<rparr>
      in case exec_stdout env cmd of
           None \<Rightarrow> Some (Threw (ExecFailed cmd), w')
         | Some stdout \<Rightarrow> Some (Returned stdout, w'))"

text \<open>\<^verbatim>\<open>question(prompt)\<close> of \<^verbatim>\<open>utils.js\<close>, which is not among the sources: it
  shows the prompt and resolves to the user's answer, the \<open>answer\<close> of the
  environment.\<close>

definition question :: "env \<Rightarrow> string \<Rightarrow> string io" where
  "question env prompt w = Some (Returned (answer env), w\<lparr>calls := calls w @ [Ask prompt]\<rparr>)"

section \<open>Dependency check (src/deps.ts)\<close>

record OSInfo =
  os_id :: string
  os_name :: string

record DependencyCheckResult =
  hasErrors :: bool
  missingCli :: "string list"
  missingWeb :: "string list"
  osId :: string
  osName :: string

definition os_release_command :: string where
  "os_release_command =
     ''cat /etc/os-release 2>/dev/null || cat /etc/redhat-release 2>/dev/null || echo ''
       @ [CHR 0x27, CHR 0x27]"

text \<open>The distribution named by the lower-cased text of the release file, in the order
  of the source's tests; \<open>None\<close> when no marker is found.\<close>

definition classify_release :: "string \<Rightarrow> OSInfo option" where
  "classify_release content =
     (if str_includes content ''ubuntu'' \<or> str_includes content ''debian''
         \<or> str_includes content ''linuxmint'' \<or> str_includes content ''pop''
      then Some \<lparr>os_id = ''ubuntu'', os_name = ''Ubuntu/Debian''\<rparr>
      else if str_includes content ''fedora''
      then Some \<lparr>os_id = ''fedora'', os_name = ''Fedora''\<rparr>
      else if str_includes content ''rhel'' \<or> str_includes content ''centos''
         \<or> str_includes content ''rocky'' \<or> str_includes content ''almalinux''
      then Some \<lparr>os_id = ''rhel'', os_name = ''RHEL/CentOS/Rocky''\<rparr>
      else if str_includes content ''arch'' \<or> str_includes content ''manjaro''
      then Some \<lparr>os_id = ''arch'', os_name = ''Arch Linux''\<rparr>
      else None)"

definition detectOS :: "env \<Rightarrow> OSInfo io" where
  "detectOS env =
     (if platform env = ''darwin'' then ret \<lparr>os_id = ''macos'', os_name = ''macOS''\<rparr>
      else if platform env = ''win32'' then ret \<lparr>os_id = ''windows'', os_name = ''Windows''\<rparr>
      else
        bind_io
          (try_catch
             (bind_io (execAsync env os_release_command)
                (\<lambda>stdout. ret (classify_release (toLowerCase stdout))))
             (\<lambda>e. ret None))
          (\<lambda>found. case found of
                      Some info \<Rightarrow> ret info
                    | None \<Rightarrow> ret \<lparr>os_id = ''linux'', os_name = ''Linux''\<rparr>))"

definition commandExists :: "env \<Rightarrow> string \<Rightarrow> bool io" where
  "commandExists env command =
     try_catch
       (bind_io
          (execAsync env
             (if platform env = ''win32'' then ''where '' @ command @ '' >nul 2>&1''
              else ''command -v '' @ command @ '' >/dev/null 2>&1''))
          (\<lambda>_. ret True))
       (\<lambda>e. ret False)"

text \<open>\<^verbatim>\<open>getVersion(command)\<close> with its default flag \<^verbatim>\<open>--version\<close>, as every caller
  uses it.\<close>

definition getVersion :: "env \<Rightarrow> string \<Rightarrow> string option io" where
  "getVersion env command =
     try_catch
       (bind_io (execAsync env (command @ '' --version 2>&1''))
          (\<lambda>stdout. ret (Some (trim stdout))))
       (\<lambda>e. ret None)"

text \<open>A \<^verbatim>\<open>string | null\<close> in a condition: \<^verbatim>\<open>null\<close> and the empty string are falsy.\<close>

definition truthy :: "string option \<Rightarrow> bool" where
  "truthy v = (case v of None \<Rightarrow> False | Some s \<Rightarrow> s \<noteq> [])"

definition text_of :: "string option \<Rightarrow> string" where
  "text_of v = (case v of None \<Rightarrow> ''null'' | Some s \<Rightarrow> s)"

text \<open>The six probes of \<^verbatim>\<open>checkDependencies\<close>, each taking the list it may push to
  and returning it.\<close>

definition probeGit :: "env \<Rightarrow> string list \<Rightarrow> string list io" where
  "probeGit env cli =
     bind_io (commandExists env ''git'') (\<lambda>found.
       if found then
         bind_io (getVersion env ''git'') (\<lambda>version.
           let shortVersion = (if truthy version then take 20 (first_line (text_of version)) else [])
           in bind_io (emit (OutSuccess (''Git: '' @ shortVersion @ ''...'')))
                (\<lambda>_. ret cli))
       else
         bind_io (emit (OutError ''Git: not found'')) (\<lambda>_. ret (cli @ [''git''])))"

definition probeClaude :: "env \<Rightarrow> string list \<Rightarrow> string list io" where
  "probeClaude env cli =
     bind_io (commandExists env ''claude'') (\<lambda>found.
       if found then
         bind_io (emit (OutSuccess ''Claude Code: installed'')) (\<lambda>_. ret cli)
       else
         bind_io (emit (OutWarn ''Claude Code: not found (npm i -g @anthropic-ai/claude-code)''))
           (\<lambda>_. ret (cli @ [''claude-code''])))"

definition probeNode :: "env \<Rightarrow> string list \<Rightarrow> string list io" where
  "probeNode env web =
     bind_io (commandExists env ''node'') (\<lambda>found.
       if found then
         bind_io (getVersion env ''node'') (\<lambda>version.
           if truthy version then
             (case match_digits (text_of version) of
                Some digits \<Rightarrow>
                  (if 18 \<le> dec_value digits then
                     bind_io (emit (OutSuccess (''Node.js: '' @ first_line (text_of version))))
                       (\<lambda>_. ret web)
                   else
                     bind_io
                       (emit (OutWarn (''Node.js: '' @ first_line (text_of version)
                                        @ '' (recommended 18+)'')))
                       (\<lambda>_. ret (web @ [''nodejs-upgrade''])))
              | None \<Rightarrow>
                  bind_io (emit (OutSuccess (''Node.js: '' @ first_line (text_of version))))
                    (\<lambda>_. ret web))
           else ret web)
       else
         bind_io (emit (OutWarn ''Node.js: not found (required for Web IDE)''))
           (\<lambda>_. ret (web @ [''nodejs''])))"

definition probePython :: "env \<Rightarrow> string list \<Rightarrow> string list io" where
  "probePython env web =
     bind_io (commandExists env ''python3'') (\<lambda>found3.
       if found3 then
         bind_io (getVersion env ''python3'') (\<lambda>version.
           if truthy version then
             bind_io
               (emit (OutSuccess (''Python3: ''
                  @ replace_first (first_line (text_of version)) ''Python '' [])))
               (\<lambda>_. ret web)
           else ret web)
       else
         bind_io (commandExists env ''python'') (\<lambda>found.
           if found then
             bind_io (getVersion env ''python'') (\<lambda>version.
               if truthy version then
                 (if (case match_python (text_of version) of
                        None \<Rightarrow> False
                      | Some digits \<Rightarrow> 3 \<le> dec_value digits)
                  then
                    bind_io
                      (emit (OutSuccess (''Python: ''
                         @ replace_first (first_line (text_of version)) ''Python '' [])))
                      (\<lambda>_. ret web)
                  else
                    bind_io
                      (emit (OutWarn (''Python: ''
                         @ replace_first (first_line (text_of version)) ''Python '' []
                         @ '' (Python 3 required)'')))
                      (\<lambda>_. ret (web @ [''python3''])))
               else ret web)
           else
             bind_io (emit (OutWarn ''Python3: not found (required for Web IDE)''))
               (\<lambda>_. ret (web @ [''python3'']))))"

definition probeGcc :: "env \<Rightarrow> string list \<Rightarrow> string list io" where
  "probeGcc env web =
     bind_io (commandExists env ''gcc'') (\<lambda>found.
       if found then bind_io (emit (OutSuccess ''GCC: installed'')) (\<lambda>_. ret web)
       else
         bind_io (emit (OutWarn ''GCC: not found (required for Web IDE)''))
           (\<lambda>_. ret (web @ [''gcc''])))"

definition probeMake :: "env \<Rightarrow> string list \<Rightarrow> string list io" where
  "probeMake env web =
     bind_io (commandExists env ''make'') (\<lambda>found.
       if found then bind_io (emit (OutSuccess ''Make: installed'')) (\<lambda>_. ret web)
       else
         bind_io (emit (OutWarn ''Make: not found (required for Web IDE)''))
           (\<lambda>_. ret (web @ [''make''])))"

definition checkDependencies :: "env \<Rightarrow> bool \<Rightarrow> DependencyCheckResult io" where
  "checkDependencies env skipDeps =
     (if skipDeps then
        ret \<lparr>hasErrors = False, missingCli = [], missingWeb = [],
             osId = ''unknown'', osName = ''Unknown''\<rparr>
      else
        bind_io (detectOS env) (\<lambda>osInfo.
        bind_io (emit (OutInfo ''Checking dependencies...'')) (\<lambda>_.
        bind_io (emit (StdoutWrite nl)) (\<lambda>_.
        bind_io (probeGit env []) (\<lambda>cli1.
        bind_io (probeClaude env cli1) (\<lambda>cli.
        bind_io (probeNode env []) (\<lambda>web1.
        bind_io (probePython env web1) (\<lambda>web2.
        bind_io (probeGcc env web2) (\<lambda>web3.
        bind_io (probeMake env web3) (\<lambda>web.
        bind_io (emit (StdoutWrite nl)) (\<lambda>_.
          ret \<lparr>hasErrors = (0 < length cli \<or> 0 < length web),
               missingCli = cli, missingWeb = web,
               osId = os_id osInfo, osName = os_name osInfo\<rparr>)))))))))))"

text \<open>\<^verbatim>\<open>promptContinue\<close>\<close>

definition promptContinue :: "env \<Rightarrow> bool io" where
  "promptContinue env =
     bind_io (emit (StdoutWrite nl)) (\<lambda>_.
     bind_io (question env ''Continue anyway? (y/n) '') (\<lambda>answer.
       ret (starts_with (toLowerCase answer) ''y'')))"

section \<open>Project initialisation (src/init.ts)\<close>

definition REPO_URL :: string where
  "REPO_URL = ''https://github.com/evolve-labs-cloud/devflow.git''"

record InitOptions =
  folder :: "string option"

text \<open>Placing a subtree at a path, with the directories that lead to it.\<close>

fun put_node :: "node \<Rightarrow> path \<Rightarrow> node \<Rightarrow> error + node" where
  "put_node n [] v = Inr v"
| "put_node n (x # p) v =
     (case n of
        File _ \<Rightarrow> Inl ENOTDIR
      | Dir es \<Rightarrow>
          (case put_node (case map_of es x of None \<Rightarrow> Dir [] | Some c \<Rightarrow> c) p v of
             Inl e \<Rightarrow> Inl e
           | Inr c' \<Rightarrow> Inr (Dir (AList.update x c' es))))"

text \<open>
  \<^verbatim>\<open>execAsync(`git clone ${REPO_URL} "${dest}"`)\<close>: when the clone succeeds the
  working tree of the template is at \<open>dest\<close>; it fails when git or the network fails,
  or when \<open>dest\<close> exists and is not an empty directory.
\<close>

definition git_clone :: "env \<Rightarrow> path \<Rightarrow> unit io" where
  "git_clone env dest w =
     (let cmd = ''git clone '' @ REPO_URL @ '' '' @ [CHR 0x22] @ path_string dest @ [CHR 0x22];
          w' = w\<lparr>calls := calls w @ [Exec cmd]\<rparr>
      in case template env of
           None \<Rightarrow> Some (Threw (ExecFailed cmd), w')
         | Some tree \<Rightarrow>
             (case lookup (fs w) dest of
                Some (File _) \<Rightarrow> Some (Threw (ExecFailed cmd), w')
              | Some (Dir (e # es)) \<Rightarrow> Some (Threw (ExecFailed cmd), w')
              | _ \<Rightarrow>
                  (case put_node (fs w) dest (Dir tree) of
                     Inl e \<Rightarrow> Some (Threw (ExecFailed cmd), w')
                   | Inr n \<Rightarrow> Some (Returned (), w'\<lparr>fs := n\<rparr>))))"

subsection \<open>checkConflicts\<close>

definition foldersToCheck :: "string list" where
  "foldersToCheck = [''.claude/commands/agents'', ''.devflow'', ''docs'']"

text \<open>The loop of \<^verbatim>\<open>checkConflicts\<close> over the folders still to test, with the
  conflicts pushed so far.\<close>

fun checkConflicts_loop :: "path \<Rightarrow> string list \<Rightarrow> string list \<Rightarrow> string list io" where
  "checkConflicts_loop targetPath [] conflicts = ret conflicts"
| "checkConflicts_loop targetPath (entry # rest) conflicts =
     bind_io
       (try_catch
          (bind_io (access (join targetPath entry)) (\<lambda>_. ret (conflicts @ [entry])))
          (\<lambda>e. ret conflicts))
       (\<lambda>conflicts'. checkConflicts_loop targetPath rest conflicts')"

definition checkConflicts :: "path \<Rightarrow> string list io" where
  "checkConflicts targetPath = checkConflicts_loop targetPath foldersToCheck []"

subsection \<open>copyDevFlowFiles\<close>

definition copyAgents :: "path \<Rightarrow> path \<Rightarrow> unit io" where
  "copyAgents tempPath targetPath =
     (let agentsSource = tempPath @ [''.claude'', ''commands'', ''agents''];
          agentsTarget = targetPath @ [''.claude'', ''commands'', ''agents'']
      in try_catch
           (seq [access agentsSource,
                 mkdir (targetPath @ [''.claude'', ''commands'']),
                 try_catch (rm agentsTarget) ignore,
                 mkdir agentsTarget,
                 copyDirectory agentsSource agentsTarget,
                 emit (OutSuccess ''Agents installed (.claude/commands/agents/)'')])
           (\<lambda>e. emit (OutWarn ''Could not copy .claude/commands/agents'')))"

definition copyDevflowStructure :: "path \<Rightarrow> path \<Rightarrow> unit io" where
  "copyDevflowStructure tempPath targetPath =
     (let devflowSource = tempPath @ [''.devflow''];
          devflowTarget = targetPath @ [''.devflow''];
          projectYamlSource = devflowSource @ [''project.yaml''];
          projectYamlTarget = devflowTarget @ [''project.yaml'']
      in try_catch
           (seq [access devflowSource,
                 mkdir (devflowTarget @ [''agents'']),
                 mkdir (devflowTarget @ [''memory'']),
                 mkdir (devflowTarget @ [''sessions'']),
                 try_catch
                   (seq [access projectYamlSource, cp projectYamlSource projectYamlTarget])
                   (\<lambda>e. writeFile projectYamlTarget []),
                 emit (OutSuccess ''DevFlow structure created (.devflow/)'')])
           (\<lambda>e. emit (OutWarn ''Could not copy .devflow structure'')))"

definition copyDocs :: "path \<Rightarrow> path \<Rightarrow> unit io" where
  "copyDocs tempPath targetPath =
     (let docsSource = tempPath @ [''docs''];
          docsTarget = targetPath @ [''docs'']
      in try_catch
           (seq [access docsTarget,
                 emit (OutWarn ''docs/ folder already exists - keeping existing'')])
           (\<lambda>e. try_catch
                  (seq [access docsSource,
                        try_catch (rm docsTarget) ignore,
                        mkdir docsTarget,
                        copyDirectory docsSource docsTarget,
                        emit (OutSuccess ''Documentation structure created (docs/)'')])
                  (\<lambda>e. emit (OutWarn ''Could not copy docs/ folder''))))"

definition copyDevFlowFiles :: "path \<Rightarrow> path \<Rightarrow> unit io" where
  "copyDevFlowFiles tempPath targetPath =
     seq [copyAgents tempPath targetPath,
          copyDevflowStructure tempPath targetPath,
          copyDocs tempPath targetPath,
          mkdir (targetPath @ [''docs'', ''snapshots''])]"

subsection \<open>initializeProject\<close>

text \<open>
  The confirmation block of \<^verbatim>\<open>initializeProject\<close> (\<^verbatim>\<open>if (conflicts.length > 0) { ... }\<close>):
  \<^verbatim>\<open>
  const answer = await question("Do you want to continue and replace existing DevFlow files? (y/n) ");
  if (!answer.toLowerCase().startsWith("y")) {
    output.error("Initialization cancelled.");
    process.exit(0);
  }
  \<close>
\<close>

definition confirmConflicts :: "env \<Rightarrow> string list \<Rightarrow> unit io" where
  "confirmConflicts env conflicts =
     (if 0 < length conflicts then
        seq [emit (StdoutWrite nl),
             emit (OutWarn
               ''The following DevFlow files/folders already exist in the target directory:''),
             seq (map (\<lambda>conflict. emit (StdoutWrite (''  - '' @ conflict @ nl))) conflicts),
             emit (StdoutWrite nl),
             bind_io
               (question env
                  ''Do you want to continue and replace existing DevFlow files? (y/n) '')
               (\<lambda>answer.
                  if \<not> starts_with (toLowerCase answer) ''y'' then
                    seq [emit (OutError ''Initialization cancelled.''), process_exit 0]
                  else ret ()),
             emit (StdoutWrite nl)]
      else ret ())"

text \<open>The \<^verbatim>\<open>.gitignore\<close> block of \<^verbatim>\<open>initializeProject\<close> ("Copy .gitignore (merge if
  exists)").\<close>

definition mergeGitignore :: "path \<Rightarrow> path \<Rightarrow> unit io" where
  "mergeGitignore tempPath targetPath =
     (let gitignoreSource = join tempPath ''.gitignore'';
          gitignoreTarget = join targetPath ''.gitignore''
      in try_catch
           (seq [access gitignoreSource,
                 try_catch
                   (seq [access gitignoreTarget,
                         bind_io (readFile gitignoreTarget) (\<lambda>existingContent.
                         bind_io (readFile gitignoreSource) (\<lambda>devflowContent.
                           writeFile gitignoreTarget (existingContent @ nl @ devflowContent))),
                         emit (OutSuccess ''.gitignore updated (merged with DevFlow entries)'')])
                   (\<lambda>e. seq [cp gitignoreSource gitignoreTarget,
                              emit (OutSuccess ''.gitignore created'')])])
           ignore)"

text \<open>The emoji that ends the final message (U+1F680 in UTF-8).\<close>

definition rocket :: string where
  "rocket = [CHR 0xF0, CHR 0x9F, CHR 0x9A, CHR 0x80]"

definition targetPath_of :: "env \<Rightarrow> InitOptions \<Rightarrow> path" where
  "targetPath_of env options =
     (if truthy (folder options) then resolve env (cwd env) (text_of (folder options))
      else cwd env)"

definition tempPath_of :: "env \<Rightarrow> InitOptions \<Rightarrow> path" where
  "tempPath_of env options =
     targetPath_of env options @ [''.devflow-temp-'' @ show_nat (now env)]"

definition initializeProject :: "env \<Rightarrow> InitOptions \<Rightarrow> unit io" where
  "initializeProject env options =
     (let targetPath = targetPath_of env options;
          tempPath = tempPath_of env options
      in seq [mkdir targetPath,
              try_finally
                (seq [git_clone env tempPath,
                      emit (OutSuccess ''Cloned template repository''),
                      bind_io (checkConflicts targetPath) (confirmConflicts env),
                      copyDevFlowFiles tempPath targetPath,
                      mergeGitignore tempPath targetPath])
                (seq [try_catch (rm tempPath) ignore,
                      emit (OutSuccess ''Temporary files cleaned up'')]),
              emit (OutSuccess (''DevFlow initialized''
                @ (if truthy (folder options) then '' in '' @ text_of (folder options) else [])
                @ '' '' @ rocket))])"

section \<open>Web IDE installer (src/ide.ts)\<close>

definition REMOTE_PACKAGE_JSON_URL :: string where
  "REMOTE_PACKAGE_JSON_URL =
     ''https://raw.githubusercontent.com/evolve-labs-cloud/devflow/main/web/package.json''"

text \<open>\<^verbatim>\<open>getRemoteVersion\<close>: a failed or not-ok request and a body without a version all
  give \<^verbatim>\<open>null\<close>.\<close>

definition getRemoteVersion :: "env \<Rightarrow> string option io" where
  "getRemoteVersion env w =
     Some (Returned (case http_get env REMOTE_PACKAGE_JSON_URL of
                       None \<Rightarrow> None
                     | Some body \<Rightarrow> json_version env body),
           w\<lparr>calls := calls w @ [Fetch REMOTE_PACKAGE_JSON_URL]\<rparr>)"

definition getLocalVersion :: "env \<Rightarrow> path \<Rightarrow> string option io" where
  "getLocalVersion env webPath =
     try_catch
       (bind_io (readFile (join webPath ''package.json''))
          (\<lambda>content. ret (json_version env content)))
       (\<lambda>e. ret None)"

record VersionCheckResult =
  localVersion :: "string option"
  remoteVersion :: "string option"
  hasUpdate :: bool

definition checkForUpdate :: "env \<Rightarrow> path \<Rightarrow> VersionCheckResult io" where
  "checkForUpdate env webPath =
     bind_io (getLocalVersion env webPath) (\<lambda>localV.
     bind_io (getRemoteVersion env) (\<lambda>remoteV.
       ret \<lparr>localVersion = localV, remoteVersion = remoteV,
            hasUpdate = (case (localV, remoteV) of
                           (Some l, Some r) \<Rightarrow> isNewerVersion (number_other env) r l
                         | _ \<Rightarrow> False)\<rparr>))"

definition pathExists :: "path \<Rightarrow> bool io" where
  "pathExists p = try_catch (bind_io (access p) (\<lambda>_. ret True)) (\<lambda>e. ret False)"

definition setupWebFolder :: "env \<Rightarrow> path \<Rightarrow> path \<Rightarrow> bool \<Rightarrow> unit io" where
  "setupWebFolder env pkgRoot webTargetPath replace =
     (let tempPath = pkgRoot @ [''.devflow-ide-temp-'' @ show_nat (now env)];
          webSourcePath = join tempPath ''web''
      in try_finally
           (seq [git_clone env tempPath,
                 emit (OutSuccess ''Repository cloned''),
                 (if replace then
                    seq [rm webTargetPath, emit (OutSuccess ''Existing web folder removed'')]
                  else ret ()),
                 mkdir webTargetPath,
                 copyDirectory webSourcePath webTargetPath,
                 emit (OutSuccess (''Web folder installed at '' @ path_string webTargetPath))])
           (seq [try_catch (rm tempPath) ignore,
                 emit (OutSuccess ''Temporary files cleaned up'')]))"

definition up_to_date_message :: "VersionCheckResult \<Rightarrow> string" where
  "up_to_date_message versionCheck =
     (if truthy (localVersion versionCheck) \<and> truthy (remoteVersion versionCheck) then
        ''DevFlow IDE is already up to date (version ''
          @ text_of (localVersion versionCheck) @ '')''
      else ''DevFlow IDE is already up to date'')"

definition updateIde :: "env \<Rightarrow> unit io" where
  "updateIde env =
     (let pkgRoot = packageRoot env;
          webTargetPath = join pkgRoot ''web'';
          install = seq [setupWebFolder env pkgRoot webTargetPath True,
                         emit (OutSuccess ''DevFlow IDE updated successfully'')]
      in bind_io (pathExists webTargetPath) (\<lambda>present.
           if present then
             bind_io (checkForUpdate env webTargetPath) (\<lambda>versionCheck.
               if \<not> hasUpdate versionCheck then
                 emit (OutSuccess (up_to_date_message versionCheck))
               else
                 seq [emit (OutInfo (''Updating DevFlow IDE from ''
                              @ text_of (localVersion versionCheck) @ '' to ''
                              @ text_of (remoteVersion versionCheck) @ ''...'')),
                      install])
           else seq [emit (OutInfo ''Installing DevFlow IDE...''), install]))"

section \<open>Sample inputs\<close>

text \<open>A template repository, an environment and target directories on which the
  commands are run below.\<close>

definition sample_template :: "(string \<times> node) list" where
  "sample_template =
     [(''.claude'', Dir [(''commands'', Dir [(''agents'', Dir [(''a.md'', File ''agent'')])])]),
      (''.devflow'', Dir [(''project.yaml'', File ''name: x'')]),
      (''docs'', Dir [(''README.md'', File ''doc'')]),
      (''.gitignore'', File ''node_modules''),
      (''web'', Dir [(''package.json'', File ''2.0.0'')])]"

definition no_output :: "string \<Rightarrow> string option" where
  "no_output cmd = None"

definition body_is_version :: "string \<Rightarrow> string option" where
  "body_is_version body = Some body"

definition serve_version :: "string \<Rightarrow> string \<Rightarrow> string option" where
  "serve_version v url = Some v"

definition resolve_relative :: "path \<Rightarrow> string \<Rightarrow> path" where
  "resolve_relative base rel = join base rel"

definition sample_env :: env where
  "sample_env =
     \<lparr>platform = ''linux'', exec_stdout = no_output, cwd = [''proj''],
      now = 1700000000123, answer = ''n'', template = Some sample_template,
      http_get = serve_version ''2.0.0'', json_version = body_is_version,
      resolve = resolve_relative, packageRoot = [''pkg''],
      number_other = nan_everywhere\<rparr>"

definition world_of :: "node \<Rightarrow> world" where
  "world_of tree = \<lparr>fs = tree, out = [], calls = []\<rparr>"

section \<open>The conflict detector as the specification words it\<close>

text \<open>The InstallPlan of the specification: the four top-level entries copied from the
  template.\<close>

definition spec_installPlan :: "string list" where
  "spec_installPlan = [''.claude/commands/agents'', ''.devflow'', ''docs'', ''.gitignore'']"

text \<open>The names of a list that exist below the target directory.\<close>

definition existing_entries :: "node \<Rightarrow> path \<Rightarrow> string list \<Rightarrow> string list" where
  "existing_entries tree targetPath names =
     filter (\<lambda>name. lookup tree (join targetPath name) \<noteq> None) names"

text \<open>\<open>findConflicts\<close> as the specification describes it: the entries of the InstallPlan
  that exist at the target.\<close>

definition spec_findConflicts :: "node \<Rightarrow> path \<Rightarrow> string list" where
  "spec_findConflicts tree targetPath = existing_entries tree targetPath spec_installPlan"

section \<open>Sample file systems\<close>

text \<open>A target with only a \<^verbatim>\<open>.gitignore\<close>, a target with only a \<^verbatim>\<open>.devflow\<close> folder, an
  installed web IDE, and two targets into which the template has just been cloned.\<close>

definition gitignore_only :: node where
  "gitignore_only = Dir [(''proj'', Dir [(''.gitignore'', File ''dist'')])]"

definition sample_target :: node where
  "sample_target = Dir [(''proj'', Dir [(''.devflow'', Dir [])])]"

definition installed_web :: node where
  "installed_web = Dir [(''pkg'', Dir [(''web'', Dir [(''package.json'', File ''2.0.0'')])])]"

definition cloned_fresh :: node where
  "cloned_fresh = Dir [(''proj'', Dir [(''.devflow-temp-1'', Dir sample_template)])]"

definition cloned_existing :: node where
  "cloned_existing =
     Dir [(''proj'', Dir [(''.gitignore'', File ''dist''),
                          (''.devflow-temp-1'', Dir sample_template)])]"

section \<open>Version order as the specification words it\<close>

text \<open>
  A version, as its list of integer components, is older than another when at the
  first position where the two differ (a missing component counting as \<open>0\<close>) its
  component is the smaller one.
\<close>

definition version_older :: "nat list \<Rightarrow> nat list \<Rightarrow> bool" where
  "version_older a b =
     list_ex (\<lambda>k. component_at a k < component_at b k
                  \<and> list_all (\<lambda>j. component_at a j = component_at b j) [0..<k])
       [0..<max (length a) (length b)]"

section \<open>Sample installations of the web IDE\<close>

text \<open>An installed web folder whose version has a component above \<open>2^53\<close>, a remote
  descriptor that differs from it only by rounding and in a later component, and a
  remote descriptor one patch level above \<^verbatim>\<open>2.0.0\<close>.\<close>

definition newer_web :: node where
  "newer_web =
     Dir [(''pkg'', Dir [(''web'', Dir [(''package.json'', File ''9007199254740993.0'')])])]"

definition rounding_env :: env where
  "rounding_env = sample_env\<lparr>http_get := serve_version ''9007199254740992.1''\<rparr>"

definition update_env :: env where
  "update_env = sample_env\<lparr>http_get := serve_version ''2.0.1''\<rparr>"

section \<open>Specification vocabulary\<close>

text \<open>A call that, from every world, returns a value satisfying \<open>Q\<close> (it neither throws
  nor exits nor runs forever).\<close>

definition post :: "'a io \<Rightarrow> ('a \<Rightarrow> bool) \<Rightarrow> bool" where
  "post m Q = (\<forall>w. \<exists>x w'. m w = Some (Returned x, w') \<and> Q x)"

section \<open>Properties of the version comparator\<close>

lemma js_lt_asym: "js_lt a b \<Longrightarrow> \<not> js_lt b a"
  by (cases a; cases b) simp_all

lemma loop_asym:
  "isNewerVersion_loop rs ls i \<Longrightarrow> \<not> isNewerVersion_loop ls rs i"
proof (induction rs ls i rule: isNewerVersion_loop.induct)
  case (1 rs ls i)
  show ?case
  proof (cases "i < max (length rs) (length ls)")
    case False
    with "1.prems" show ?thesis
      by (subst (asm) isNewerVersion_loop.simps) simp
  next
    case inside: True
    let ?r = "part_or_zero rs i" and ?l = "part_or_zero ls i"
    consider (gt) "js_lt ?l ?r" | (lt) "\<not> js_lt ?l ?r" "js_lt ?r ?l"
      | (eq) "\<not> js_lt ?l ?r" "\<not> js_lt ?r ?l"
      by blast
    then show ?thesis
    proof cases
      case gt
      then have "\<not> js_lt ?r ?l" by (rule js_lt_asym)
      with gt inside show ?thesis
        by (subst isNewerVersion_loop.simps) (simp add: js_gt_def Let_def max.commute)
    next
      case lt
      with inside "1.prems" show ?thesis
        by (subst (asm) isNewerVersion_loop.simps) (simp add: js_gt_def Let_def)
    next
      case eq
      with inside "1.prems" have "isNewerVersion_loop rs ls (Suc i)"
        by (subst (asm) isNewerVersion_loop.simps) (simp add: js_gt_def Let_def)
      with "1.IH" inside eq have "\<not> isNewerVersion_loop ls rs (Suc i)"
        by (simp add: js_gt_def)
      with inside eq show ?thesis
        by (subst isNewerVersion_loop.simps) (simp add: js_gt_def Let_def max.commute)
    qed
  qed
qed

lemma loop_irrefl: "\<not> isNewerVersion_loop ps ps i"
  using loop_asym [of ps ps i] by blast

lemma length_exact_parts [simp]: "length (exact_parts cs) = length cs"
  by (simp add: exact_parts_def)

lemma part_or_zero_exact:
  "part_or_zero (exact_parts cs) i = Fin (of_nat (component_at cs i))"
  by (simp add: part_or_zero_def exact_parts_def component_at_def)

lemma loop_exact:
  "isNewerVersion_loop (exact_parts rs) (exact_parts ls) i \<longleftrightarrow>
     (\<exists>k. i \<le> k \<and> k < max (length rs) (length ls) \<and>
          component_at ls k < component_at rs k \<and>
          (\<forall>j. i \<le> j \<and> j < k \<longrightarrow> component_at rs j = component_at ls j))"
  (is "?L rs ls i = ?R rs ls i")
proof (induction "exact_parts rs" "exact_parts ls" i rule: isNewerVersion_loop.induct)
  case (1 i)
  show ?case
  proof (cases "i < max (length rs) (length ls)")
    case False
    then have "\<not> ?L rs ls i"
      by (subst isNewerVersion_loop.simps) simp
    moreover from False have "\<not> ?R rs ls i" by auto
    ultimately show ?thesis by blast
  next
    case inside: True
    consider (gt) "component_at ls i < component_at rs i"
      | (lt) "component_at rs i < component_at ls i"
      | (eq) "component_at rs i = component_at ls i"
      by linarith
    then show ?thesis
    proof cases
      case gt
      with inside have "?L rs ls i"
        by (subst isNewerVersion_loop.simps)
           (simp add: part_or_zero_exact js_gt_def Let_def)
      moreover from gt inside have "?R rs ls i"
        by (intro exI[of _ i]) simp
      ultimately show ?thesis by blast
    next
      case lt
      with inside have "\<not> ?L rs ls i"
        by (subst isNewerVersion_loop.simps)
           (simp add: part_or_zero_exact js_gt_def Let_def)
      moreover have "\<not> ?R rs ls i"
      proof
        assume "?R rs ls i"
        then obtain k where k: "i \<le> k" "component_at ls k < component_at rs k"
          "\<forall>j. i \<le> j \<and> j < k \<longrightarrow> component_at rs j = component_at ls j" by blast
        show False
        proof (cases "k = i")
          case True with k lt show False by simp
        next
          case False
          with k have "component_at rs i = component_at ls i" by simp
          with lt show False by simp
        qed
      qed
      ultimately show ?thesis by blast
    next
      case eq
      with inside have step: "?L rs ls i = ?L rs ls (Suc i)"
        by (subst isNewerVersion_loop.simps)
           (simp add: part_or_zero_exact js_gt_def Let_def)
      from eq inside have ih: "?L rs ls (Suc i) = ?R rs ls (Suc i)"
        using "1.hyps" [OF _ refl refl] by (simp add: part_or_zero_exact js_gt_def)
      have "?R rs ls i = ?R rs ls (Suc i)"
      proof
        assume "?R rs ls i"
        then obtain k where k: "i \<le> k" "k < max (length rs) (length ls)"
          "component_at ls k < component_at rs k"
          "\<forall>j. i \<le> j \<and> j < k \<longrightarrow> component_at rs j = component_at ls j" by blast
        from k(3) eq have "k \<noteq> i" by auto
        with k(1) have "Suc i \<le> k" by simp
        with k show "?R rs ls (Suc i)" by (intro exI[of _ k]) simp
      next
        assume "?R rs ls (Suc i)"
        then obtain k where k: "Suc i \<le> k" "k < max (length rs) (length ls)"
          "component_at ls k < component_at rs k"
          "\<forall>j. Suc i \<le> j \<and> j < k \<longrightarrow> component_at rs j = component_at ls j" by blast
        have "\<forall>j. i \<le> j \<and> j < k \<longrightarrow> component_at rs j = component_at ls j"
        proof (intro allI impI)
          fix j assume "i \<le> j \<and> j < k"
          then show "component_at rs j = component_at ls j"
            using eq k(4) by (cases "j = i") auto
        qed
        with k show "?R rs ls i" by (intro exI[of _ k]) simp
      qed
      with step ih show ?thesis by blast
    qed
  qed
qed

lemma to_double_exact: "n < 2 ^ 53 \<Longrightarrow> to_double n = Fin (of_nat n)"
  by (simp add: to_double_def)

lemma parts_exact:
  assumes "valid_version s" and "list_all (\<lambda>c. c < 2 ^ 53) (components s)"
  shows "map (Number other) (split_on CHR ''.'' s) = exact_parts (components s)"
  using assms
  by (auto simp: valid_version_def components_def exact_parts_def Number_def
        list_all_iff to_double_exact)

lemmas version_eval =
  isNewerVersion_def Number_def is_digit_def dec_value_def digit_value_def to_double_def
  isNewerVersion_loop.simps part_or_zero_def js_gt_def valid_version_def components_def
  component_at_def

text \<open>
  C2. For valid dotted-numeric version strings \<open>a\<close> and \<open>b\<close>, \<open>isNewerVersion a b\<close> and
  \<open>isNewerVersion b a\<close> are never both true, and \<open>isNewerVersion a a\<close> is false.
\<close>

theorem isNewerVersion_asymmetric:
  assumes "valid_version a" and "valid_version b"
  shows "\<not> (isNewerVersion other a b \<and> isNewerVersion other b a)
         \<and> \<not> isNewerVersion other a a"
  using loop_asym [of "map (Number other) (split_on CHR ''.'' a)"
                      "map (Number other) (split_on CHR ''.'' b)" 0]
        loop_irrefl [of "map (Number other) (split_on CHR ''.'' a)" 0]
  by (auto simp: isNewerVersion_def)

theorem isNewerVersion_asymmetric_witness:
  "valid_version ''1.2.3'' \<and> valid_version ''1.10''
   \<and> \<not> (isNewerVersion nan_everywhere ''1.2.3'' ''1.10''
          \<and> isNewerVersion nan_everywhere ''1.10'' ''1.2.3'')
   \<and> \<not> isNewerVersion nan_everywhere ''1.2.3'' ''1.2.3''"
proof -
  have a: "valid_version ''1.2.3''" and b: "valid_version ''1.10''"
    by (simp_all add: valid_version_def is_digit_def)
  from isNewerVersion_asymmetric [OF a b, of nan_everywhere] a b show ?thesis
    by blast
qed

text \<open>
  C3, as the claim states it, fails on large components: \<^verbatim>\<open>Number\<close> yields doubles, and
  \<open>9007199254740993\<close> (\<open>2^53 + 1\<close>) converts to the same double as \<open>9007199254740992\<close>,
  so the comparator does not report the larger integer as newer.
\<close>

theorem isNewerVersion_rounding_counterexample:
  "valid_version ''9007199254740993'' \<and> valid_version ''9007199254740992''
   \<and> components ''9007199254740993'' = [9007199254740993]
   \<and> components ''9007199254740992'' = [9007199254740992]
   \<and> \<not> isNewerVersion nan_everywhere ''9007199254740993'' ''9007199254740992''"
  by (simp add: version_eval)

text \<open>
  C3 (amended). For dotted-numeric version strings whose components are all below
  \<open>2^53\<close>, \<open>isNewerVersion remote local\<close> compares the components as integers up to
  the longer segment count, a missing component counting as \<open>0\<close>: it is true exactly
  when at the first position where the two differ the remote component is the greater,
  and false when no position differs. In particular \<open>isNewerVersion "1.0" "1.0.1"\<close> is
  false and \<open>isNewerVersion "1.0.1" "1.0"\<close> is true.
\<close>

theorem isNewerVersion_first_difference:
  "(valid_version remote \<and> valid_version local
      \<and> list_all (\<lambda>c. c < 2 ^ 53) (components remote @ components local)
    \<longrightarrow> isNewerVersion other remote local =
          (\<exists>k < max (length (components remote)) (length (components local)).
              component_at (components local) k < component_at (components remote) k
              \<and> (\<forall>j < k. component_at (components remote) j
                          = component_at (components local) j)))
   \<and> \<not> isNewerVersion other ''1.0'' ''1.0.1''
   \<and> isNewerVersion other ''1.0.1'' ''1.0''"
proof (intro conjI impI)
  assume h: "valid_version remote \<and> valid_version local
      \<and> list_all (\<lambda>c. c < 2 ^ 53) (components remote @ components local)"
  then have r: "map (Number other) (split_on CHR ''.'' remote) = exact_parts (components remote)"
    and l: "map (Number other) (split_on CHR ''.'' local) = exact_parts (components local)"
    by (simp_all add: parts_exact)
  show "isNewerVersion other remote local =
          (\<exists>k < max (length (components remote)) (length (components local)).
              component_at (components local) k < component_at (components remote) k
              \<and> (\<forall>j < k. component_at (components remote) j
                          = component_at (components local) j))"
    unfolding isNewerVersion_def Let_def r l
    by (simp add: loop_exact)
next
  show "\<not> isNewerVersion other ''1.0'' ''1.0.1''"
    by (simp add: version_eval)
next
  show "isNewerVersion other ''1.0.1'' ''1.0''"
    by (simp add: version_eval)
qed

theorem isNewerVersion_first_difference_witness:
  "valid_version ''2.10.0'' \<and> valid_version ''2.9''
   \<and> list_all (\<lambda>c. c < 2 ^ 53) (components ''2.10.0'' @ components ''2.9'')
   \<and> isNewerVersion nan_everywhere ''2.10.0'' ''2.9''"
proof -
  have h: "valid_version ''2.10.0'' \<and> valid_version ''2.9''
      \<and> list_all (\<lambda>c. c < 2 ^ 53) (components ''2.10.0'' @ components ''2.9'')"
    by (simp add: valid_version_def components_def is_digit_def dec_value_def digit_value_def)
  have "\<exists>k < max (length (components ''2.10.0'')) (length (components ''2.9'')).
              component_at (components ''2.9'') k < component_at (components ''2.10.0'') k
              \<and> (\<forall>j < k. component_at (components ''2.10.0'') j
                          = component_at (components ''2.9'') j)"
    by (rule exI [of _ 1])
       (simp add: components_def component_at_def dec_value_def digit_value_def)
  with h isNewerVersion_first_difference [of "''2.10.0''" "''2.9''" nan_everywhere]
  show ?thesis by blast
qed

text \<open>
  C10. \<open>isNewerVersion\<close> is total on arbitrary strings (it is a total function whose
  loop terminates, and no operation in it can throw on strings), and for every string
  \<open>s\<close>, whatever its segments convert to (an empty segment to \<open>0\<close>, a non-numeric one to
  NaN), \<open>isNewerVersion s s\<close> is false: a value compared with itself is neither greater
  nor less, NaN included.
\<close>

theorem isNewerVersion_self_is_false:
  "\<not> isNewerVersion other s s \<and> \<not> js_gt NaN NaN \<and> \<not> js_lt NaN NaN"
  using loop_irrefl [of "map (Number other) (split_on CHR ''.'' s)" 0]
  by (simp add: isNewerVersion_def js_gt_def)

section \<open>Properties of the dependency check\<close>

lemma post_ret: "Q x \<Longrightarrow> post (ret x) Q"
  by (simp add: post_def ret_def)

lemma post_emit: "Q () \<Longrightarrow> post (emit m) Q"
  by (simp add: post_def emit_def)

lemma post_bind:
  assumes "post m (\<lambda>x. True)" and "\<And>x. post (f x) Q"
  shows "post (bind_io m f) Q"
  unfolding post_def
proof
  fix w
  from assms(1) obtain x w1 where m: "m w = Some (Returned x, w1)"
    unfolding post_def by blast
  from assms(2) [of x] obtain y w2 where f: "f x w1 = Some (Returned y, w2)" "Q y"
    unfolding post_def by blast
  from m f show "\<exists>x w'. bind_io m f w = Some (Returned x, w') \<and> Q x"
    by (simp add: bind_io_def)
qed

lemma post_catch_exec:
  "post (try_catch (bind_io (execAsync env cmd) (\<lambda>x. ret (f x))) (\<lambda>e. ret d)) (\<lambda>x. True)"
  by (auto simp: post_def try_catch_def bind_io_def execAsync_def ret_def Let_def
           split: option.split)

lemma post_commandExists: "post (commandExists env c) (\<lambda>x. True)"
  unfolding commandExists_def by (rule post_catch_exec)

lemma post_getVersion: "post (getVersion env c) (\<lambda>x. True)"
  unfolding getVersion_def by (rule post_catch_exec)

lemma post_detectOS: "post (detectOS env) (\<lambda>x. True)"
  unfolding detectOS_def
  by (auto intro!: post_ret post_bind post_catch_exec split: option.split)

lemmas post_intros = post_ret post_emit post_bind post_commandExists post_getVersion

lemma post_probeGit: "post (probeGit env m) (\<lambda>x. True)"
  unfolding probeGit_def Let_def by (auto intro!: post_intros)

lemma post_probeClaude: "post (probeClaude env m) (\<lambda>x. True)"
  unfolding probeClaude_def by (auto intro!: post_intros)

lemma post_probeNode: "post (probeNode env m) (\<lambda>x. True)"
  unfolding probeNode_def by (auto intro!: post_intros split: option.split)

lemma post_probePython: "post (probePython env m) (\<lambda>x. True)"
  unfolding probePython_def by (auto intro!: post_intros split: option.split)

lemma post_probeGcc: "post (probeGcc env m) (\<lambda>x. True)"
  unfolding probeGcc_def by (auto intro!: post_intros)

lemma post_probeMake: "post (probeMake env m) (\<lambda>x. True)"
  unfolding probeMake_def by (auto intro!: post_intros)

lemma post_checkDependencies:
  "post (checkDependencies env skipDeps)
     (\<lambda>r. hasErrors r = (0 < length (missingCli r) + length (missingWeb r)))"
  unfolding checkDependencies_def
  by (auto intro!: post_intros post_detectOS post_probeGit post_probeClaude post_probeNode
        post_probePython post_probeGcc post_probeMake)

text \<open>
  C4. \<open>checkDependencies(true)\<close> returns the all-clear report (\<open>hasErrors\<close> false, both
  missing lists empty, the OS \<open>"unknown"\<close>/\<open>"Unknown"\<close>) and leaves the world as it
  was: no command is run, so no tool is probed and no OS is detected, and nothing is
  printed.
\<close>

theorem checkDependencies_skip:
  "checkDependencies env True w =
     Some (Returned \<lparr>hasErrors = False, missingCli = [], missingWeb = [],
                     osId = ''unknown'', osName = ''Unknown''\<rparr>, w)"
  by (simp add: checkDependencies_def ret_def)

text \<open>
  C5. For either value of \<open>skipDeps\<close> and any outcome of the probes,
  \<open>checkDependencies\<close> returns a report, and in it \<open>hasErrors\<close> is true if and only if
  \<open>missingCli\<close> and \<open>missingWeb\<close> together have at least one entry.
\<close>

theorem checkDependencies_hasErrors_invariant:
  "\<exists>r w'. checkDependencies env skipDeps w = Some (Returned r, w')
          \<and> hasErrors r = (0 < length (missingCli r) + length (missingWeb r))"
  using post_checkDependencies [of env skipDeps] unfolding post_def by blast

section \<open>Properties of the file system\<close>

lemma join_single [simp]: "join p ''.gitignore'' = p @ [''.gitignore'']"
  by (simp add: join_def)

lemma mkdirp_existing: "lookup n p = Some (Dir es) \<Longrightarrow> mkdirp n p = Inr n"
proof (induction p arbitrary: n)
  case Nil
  then show ?case by simp
next
  case (Cons x p)
  then show ?case
    by (auto split: node.splits option.splits simp: update_triv)
qed

lemma write_file_ok:
  assumes "lookup n p = Some (Dir es)"
    and "\<forall>ds. lookup n (p @ [x]) \<noteq> Some (Dir ds)"
  shows "\<exists>n'. write_file n (p @ [x]) s = Inr n' \<and> lookup n' (p @ [x]) = Some (File s)"
  using assms
proof (induction p arbitrary: n)
  case Nil
  then have n: "n = Dir es" and x: "\<forall>ds. map_of es x \<noteq> Some (Dir ds)"
    by (auto split: option.splits)
  have w: "write_file (Dir es) [x] s = Inr (Dir (AList.update x (File s) es))"
  proof (cases "map_of es x")
    case None
    then show ?thesis by simp
  next
    case (Some c)
    with x show ?thesis by (cases c) simp_all
  qed
  have "lookup (Dir (AList.update x (File s) es)) [x] = Some (File s)"
    by (simp add: update_conv')
  with n w show ?case by simp
next
  case (Cons y p)
  from Cons.prems(1) obtain es0 c where n: "n = Dir es0" and c: "map_of es0 y = Some c"
    and cp: "lookup c p = Some (Dir es)"
    by (auto split: node.splits option.splits)
  from Cons.prems(2) n c have "\<forall>ds. lookup c (p @ [x]) \<noteq> Some (Dir ds)" by simp
  from Cons.IH [OF cp this] obtain c' where
    c': "write_file c (p @ [x]) s = Inr c'" "lookup c' (p @ [x]) = Some (File s)" by blast
  with n c show ?case by (simp add: update_conv')
qed

lemmas io_defs = bind_io_def try_catch_def ret_def emit_def access_def fs_query_def
  fs_mutate_def readFile_def writeFile_def cp_def read_file_def copy_file_def ignore_def

section \<open>Properties of the project initialisation\<close>

lemma checkConflicts_loop_eq:
  "checkConflicts_loop targetPath names conflicts w =
     Some (Returned (conflicts @ existing_entries (fs w) targetPath names), w)"
  by (induction names arbitrary: conflicts)
     (simp_all add: existing_entries_def io_defs)

text \<open>
  C7, as the claim states it, fails: the InstallPlan of the specification contains
  \<^verbatim>\<open>.gitignore\<close>, but \<open>checkConflicts\<close> does not test it. On a target that holds only a
  \<^verbatim>\<open>.gitignore\<close> it returns the empty list, not the entries of the InstallPlan that
  exist.
\<close>

theorem checkConflicts_counterexample:
  "checkConflicts [''proj''] (world_of gitignore_only)
     \<noteq> Some (Returned (spec_findConflicts gitignore_only [''proj'']), world_of gitignore_only)"
  by (simp add: checkConflicts_def checkConflicts_loop_eq foldersToCheck_def world_of_def
        spec_findConflicts_def spec_installPlan_def existing_entries_def gitignore_only_def join_def
      del: checkConflicts_loop.simps)

text \<open>
  C7 (amended). \<open>checkConflicts\<close> tests, for each of the three folders
  \<^verbatim>\<open>.claude/commands/agents\<close>, \<^verbatim>\<open>.devflow\<close> and \<^verbatim>\<open>docs\<close> (not \<^verbatim>\<open>.gitignore\<close>), whether
  it exists below the target, and returns exactly the ones that exist, in that order,
  changing nothing; in particular, for a target with a \<^verbatim>\<open>.devflow\<close> folder and neither
  of the other two it returns the list with \<^verbatim>\<open>.devflow\<close> alone.
\<close>

theorem checkConflicts_returns_existing:
  "checkConflicts targetPath w =
     Some (Returned (existing_entries (fs w) targetPath
                       [''.claude/commands/agents'', ''.devflow'', ''docs'']), w)
   \<and> (lookup (fs w) (join targetPath ''.devflow'') \<noteq> None
        \<and> lookup (fs w) (join targetPath ''docs'') = None
        \<and> lookup (fs w) (join targetPath ''.claude/commands/agents'') = None
      \<longrightarrow> checkConflicts targetPath w = Some (Returned [''.devflow''], w))"
  by (simp add: checkConflicts_def checkConflicts_loop_eq foldersToCheck_def existing_entries_def
      del: checkConflicts_loop.simps)

theorem checkConflicts_returns_existing_witness:
  "lookup sample_target (join [''proj''] ''.devflow'') \<noteq> None
   \<and> lookup sample_target (join [''proj''] ''docs'') = None
   \<and> lookup sample_target (join [''proj''] ''.claude/commands/agents'') = None
   \<and> checkConflicts [''proj''] (world_of sample_target)
       = Some (Returned [''.devflow''], world_of sample_target)"
proof -
  have h: "lookup (fs (world_of sample_target)) (join [''proj''] ''.devflow'') \<noteq> None
   \<and> lookup (fs (world_of sample_target)) (join [''proj''] ''docs'') = None
   \<and> lookup (fs (world_of sample_target)) (join [''proj''] ''.claude/commands/agents'') = None"
    by (simp add: world_of_def sample_target_def join_def)
  with checkConflicts_returns_existing [of "[''proj'']" "world_of sample_target"]
  have "checkConflicts [''proj''] (world_of sample_target)
       = Some (Returned [''.devflow''], world_of sample_target)" by blast
  moreover have "fs (world_of sample_target) = sample_target" by (simp add: world_of_def)
  ultimately show ?thesis using h by simp
qed

lemma seq_emits:
  "seq (map (\<lambda>c. emit (f c)) cs) w = Some (Returned (), w\<lparr>out := out w @ map f cs\<rparr>)"
  by (induction cs arbitrary: w) (simp_all add: io_defs)

lemma starts_with_y:
  "starts_with (toLowerCase a) ''y'' =
     (case a of [] \<Rightarrow> False | c # rest \<Rightarrow> c = CHR ''y'' \<or> c = CHR ''Y'')"
  by (cases a) (auto simp: starts_with_def toLowerCase_def lower_char_def)

text \<open>
  C6, as the claim states it, fails: an answer that is not negative, such as \<open>"ok"\<close>, is
  not accepted as continue; the process exits.
\<close>

theorem confirmConflicts_counterexample:
  "\<not> starts_with (toLowerCase ''ok'') ''n''
   \<and> map_option fst (confirmConflicts (sample_env\<lparr>answer := ''ok''\<rparr>) [''.devflow'']
                        (world_of sample_target)) = Some (Exited 0)"
  by (simp add: confirmConflicts_def io_defs question_def process_exit_def starts_with_def
        toLowerCase_def lower_char_def sample_env_def world_of_def)

text \<open>
  C6 (amended). When there are conflicts, the installation continues exactly when the
  answer starts with \<open>y\<close> or \<open>Y\<close>; on every other answer (a leading \<open>n\<close>, the empty
  line, anything else) it is abandoned with \<^verbatim>\<open>process.exit(0)\<close>.
\<close>

theorem confirmConflicts_continues_iff_yes:
  assumes "conflicts \<noteq> []"
  shows "(case answer env of
            [] \<Rightarrow> False
          | c # rest \<Rightarrow> c = CHR ''y'' \<or> c = CHR ''Y'')
         = (\<exists>w'. confirmConflicts env conflicts w = Some (Returned (), w'))
       \<and> ((\<exists>w'. confirmConflicts env conflicts w = Some (Returned (), w'))
            \<or> (\<exists>w'. confirmConflicts env conflicts w = Some (Exited 0, w')))"
  using assms
  by (simp add: confirmConflicts_def io_defs question_def process_exit_def seq_emits
        starts_with_y split: list.split)

theorem confirmConflicts_continues_iff_yes_witness:
  "[''.devflow''] \<noteq> []
   \<and> \<not> (\<exists>w'. confirmConflicts sample_env [''.devflow''] (world_of sample_target)
                  = Some (Returned (), w'))
   \<and> (\<exists>w'. confirmConflicts sample_env [''.devflow''] (world_of sample_target)
              = Some (Exited 0, w'))"
proof -
  have c: "[''.devflow''] \<noteq> ([] :: string list)" by simp
  have a: "answer sample_env = ''n''" by (simp add: sample_env_def)
  note t = confirmConflicts_continues_iff_yes [OF c, of sample_env "world_of sample_target"]
  from t a have no: "\<not> (\<exists>w'. confirmConflicts sample_env [''.devflow'']
                              (world_of sample_target) = Some (Returned (), w'))"
    by simp
  from t have "(\<exists>w'. confirmConflicts sample_env [''.devflow''] (world_of sample_target)
                    = Some (Returned (), w'))
             \<or> (\<exists>w'. confirmConflicts sample_env [''.devflow''] (world_of sample_target)
                    = Some (Exited 0, w'))"
    by (rule conjunct2)
  with no c show ?thesis by blast
qed

text \<open>
  C8. In the \<^verbatim>\<open>.gitignore\<close> step, with a template that provides a \<^verbatim>\<open>.gitignore\<close> file
  and an existing target directory: if the target has no \<^verbatim>\<open>.gitignore\<close>, the step
  copies the template's file, so the target's \<^verbatim>\<open>.gitignore\<close> has the template's
  content; if the target has one, the step makes exactly one call that writes a file,
  a \<^verbatim>\<open>writeFile\<close>, and the content afterwards is the original content, one newline,
  then the template's content.
\<close>

theorem mergeGitignore_result:
  assumes src: "lookup (fs w) (tempPath @ [''.gitignore'']) = Some (File templateText)"
    and dir: "lookup (fs w) targetPath = Some (Dir entries)"
  shows "(lookup (fs w) (targetPath @ [''.gitignore'']) = None \<longrightarrow>
            (\<exists>w'. mergeGitignore tempPath targetPath w = Some (Returned (), w')
               \<and> lookup (fs w') (targetPath @ [''.gitignore'']) = Some (File templateText)
               \<and> calls w' = calls w @ [Cp (tempPath @ [''.gitignore''])
                                            (targetPath @ [''.gitignore''])]))
       \<and> (\<forall>original. lookup (fs w) (targetPath @ [''.gitignore'']) = Some (File original) \<longrightarrow>
            (\<exists>w'. mergeGitignore tempPath targetPath w = Some (Returned (), w')
               \<and> lookup (fs w') (targetPath @ [''.gitignore''])
                   = Some (File (original @ nl @ templateText))
               \<and> calls w' = calls w @ [WriteFile (targetPath @ [''.gitignore''])
                                            (original @ nl @ templateText)]))"
proof (intro conjI impI allI)
  assume none: "lookup (fs w) (targetPath @ [''.gitignore'']) = None"
  then have "\<forall>ds. lookup (fs w) (targetPath @ [''.gitignore'']) \<noteq> Some (Dir ds)" by simp
  from write_file_ok [OF dir this, of templateText] obtain n' where
    n': "write_file (fs w) (targetPath @ [''.gitignore'']) templateText = Inr n'"
        "lookup n' (targetPath @ [''.gitignore'']) = Some (File templateText)" by blast
  from src none have ne: "tempPath @ [''.gitignore''] \<noteq> targetPath @ [''.gitignore'']"
    by auto
  from src none n' ne mkdirp_existing [OF dir]
  show "\<exists>w'. mergeGitignore tempPath targetPath w = Some (Returned (), w')
               \<and> lookup (fs w') (targetPath @ [''.gitignore'']) = Some (File templateText)
               \<and> calls w' = calls w @ [Cp (tempPath @ [''.gitignore''])
                                            (targetPath @ [''.gitignore''])]"
    by (simp add: mergeGitignore_def io_defs Let_def)
next
  fix original
  assume tgt: "lookup (fs w) (targetPath @ [''.gitignore'']) = Some (File original)"
  then have "\<forall>ds. lookup (fs w) (targetPath @ [''.gitignore'']) \<noteq> Some (Dir ds)" by simp
  from write_file_ok [OF dir this, of "original @ nl @ templateText"] obtain n' where
    n': "write_file (fs w) (targetPath @ [''.gitignore'']) (original @ nl @ templateText) = Inr n'"
        "lookup n' (targetPath @ [''.gitignore'']) = Some (File (original @ nl @ templateText))"
    by blast
  from src tgt n'
  show "\<exists>w'. mergeGitignore tempPath targetPath w = Some (Returned (), w')
               \<and> lookup (fs w') (targetPath @ [''.gitignore''])
                   = Some (File (original @ nl @ templateText))
               \<and> calls w' = calls w @ [WriteFile (targetPath @ [''.gitignore''])
                                            (original @ nl @ templateText)]"
    by (simp add: mergeGitignore_def io_defs Let_def)
qed

theorem mergeGitignore_result_witness:
  "lookup (fs (world_of cloned_fresh)) ([''proj'', ''.devflow-temp-1''] @ [''.gitignore''])
     = Some (File ''node_modules'')
   \<and> lookup (fs (world_of cloned_fresh)) ([''proj''] @ [''.gitignore'']) = None
   \<and> (\<exists>w'. mergeGitignore [''proj'', ''.devflow-temp-1''] [''proj''] (world_of cloned_fresh)
              = Some (Returned (), w')
            \<and> lookup (fs w') ([''proj''] @ [''.gitignore'']) = Some (File ''node_modules''))
   \<and> lookup (fs (world_of cloned_existing)) ([''proj''] @ [''.gitignore''])
       = Some (File ''dist'')
   \<and> (\<exists>w'. mergeGitignore [''proj'', ''.devflow-temp-1''] [''proj''] (world_of cloned_existing)
              = Some (Returned (), w')
            \<and> lookup (fs w') ([''proj''] @ [''.gitignore''])
                = Some (File (''dist'' @ nl @ ''node_modules''))
            \<and> calls w' = [WriteFile ([''proj''] @ [''.gitignore''])
                             (''dist'' @ nl @ ''node_modules'')])"
proof -
  have f1: "lookup (fs (world_of cloned_fresh)) ([''proj'', ''.devflow-temp-1''] @ [''.gitignore''])
     = Some (File ''node_modules'')"
    and f2: "lookup (fs (world_of cloned_fresh)) [''proj'']
     = Some (Dir [(''.devflow-temp-1'', Dir sample_template)])"
    and f3: "lookup (fs (world_of cloned_fresh)) ([''proj''] @ [''.gitignore'']) = None"
    by (simp_all add: world_of_def cloned_fresh_def sample_template_def)
  have e1: "lookup (fs (world_of cloned_existing)) ([''proj'', ''.devflow-temp-1''] @ [''.gitignore''])
     = Some (File ''node_modules'')"
    and e2: "lookup (fs (world_of cloned_existing)) [''proj'']
     = Some (Dir [(''.gitignore'', File ''dist''), (''.devflow-temp-1'', Dir sample_template)])"
    and e3: "lookup (fs (world_of cloned_existing)) ([''proj''] @ [''.gitignore''])
     = Some (File ''dist'')"
    by (simp_all add: world_of_def cloned_existing_def sample_template_def)
  have c: "calls (world_of cloned_existing) = []" by (simp add: world_of_def)
  from mergeGitignore_result [OF f1 f2] f3
  have "\<exists>w'. mergeGitignore [''proj'', ''.devflow-temp-1''] [''proj''] (world_of cloned_fresh)
              = Some (Returned (), w')
            \<and> lookup (fs w') ([''proj''] @ [''.gitignore'']) = Some (File ''node_modules'')"
    by blast
  moreover from mergeGitignore_result [OF e1 e2] e3 c
  have "\<exists>w'. mergeGitignore [''proj'', ''.devflow-temp-1''] [''proj''] (world_of cloned_existing)
              = Some (Returned (), w')
            \<and> lookup (fs w') ([''proj''] @ [''.gitignore''])
                = Some (File (''dist'' @ nl @ ''node_modules''))
            \<and> calls w' = [WriteFile ([''proj''] @ [''.gitignore''])
                             (''dist'' @ nl @ ''node_modules'')]"
    by (metis append_Nil)
  ultimately show ?thesis using f1 f3 e3 by blast
qed

text \<open>
  C1. Declining the conflict prompt: on a target that has a \<^verbatim>\<open>.devflow\<close> folder, with
  the answer \<open>"n"\<close>, \<open>initializeProject\<close> ends the process with exit code 0 and has
  changed nothing under \<^verbatim>\<open>.claude\<close>, \<^verbatim>\<open>.devflow\<close> or \<^verbatim>\<open>docs\<close>; but the temp workspace
  with the clone is still below the target: \<^verbatim>\<open>process.exit(0)\<close> is called inside the
  \<^verbatim>\<open>try\<close> block, the process ends there, and the \<^verbatim>\<open>finally\<close> block that removes the
  temp workspace does not run (no \<^verbatim>\<open>rm\<close> of it is ever called).
\<close>

theorem initializeProject_decline_keeps_temp:
  "(case initializeProject sample_env \<lparr>folder = None\<rparr> (world_of sample_target) of
      Some (Exited code, w') \<Rightarrow>
        code = 0
        \<and> lookup (fs w') [''proj'', ''.devflow-temp-1700000000123'']
            = Some (Dir sample_template)
        \<and> lookup (fs w') [''proj'', ''.devflow''] = lookup sample_target [''proj'', ''.devflow'']
        \<and> lookup (fs w') [''proj'', ''.claude''] = None
        \<and> lookup (fs w') [''proj'', ''docs''] = None
        \<and> \<not> List.member (calls w') (Rm [''proj'', ''.devflow-temp-1700000000123''])
    | _ \<Rightarrow> False)"
  by (simp add: initializeProject_def targetPath_of_def tempPath_of_def truthy_def
        sample_env_def world_of_def sample_target_def git_clone_def show_nat.simps
        digit_char_def path_string_def REPO_URL_def checkConflicts_def foldersToCheck_def
        join_def confirmConflicts_def try_finally_def process_exit_def mkdir_def
        question_def starts_with_def toLowerCase_def lower_char_def nl_def
        io_defs Let_def)

section \<open>Properties of the web IDE update\<close>

lemma starts_with_append: "starts_with a p \<Longrightarrow> starts_with (a @ b) p"
proof -
  assume h: "starts_with a p"
  then have "length (take (length p) a) = length p"
    by (simp only: starts_with_def)
  then have "length p \<le> length a" by simp
  with h show ?thesis by (simp add: starts_with_def)
qed

lemma str_includes_append: "str_includes a p \<Longrightarrow> str_includes (a @ b) p"
proof (induction a)
  case Nil
  then show ?case by (cases b) (simp_all add: starts_with_def)
next
  case (Cons c cs)
  then show ?case
    using starts_with_append [of "c # cs" p b] by auto
qed

lemma up_to_date_message_includes:
  "str_includes (up_to_date_message vc) ''already up to date''"
proof -
  have "str_includes ''DevFlow IDE is already up to date'' ''already up to date''"
    by (simp add: starts_with_def)
  moreover have "str_includes ''DevFlow IDE is already up to date (version '' ''already up to date''"
    by (simp add: starts_with_def)
  ultimately show ?thesis
    unfolding up_to_date_message_def
    using str_includes_append [of "''DevFlow IDE is already up to date (version ''"
            "''already up to date''" "text_of (localVersion vc) @ '')''"]
    by simp
qed

lemma newer_iff_older:
  assumes "valid_version l" and "valid_version r"
    and "list_all (\<lambda>c. c < 2 ^ 53) (components l @ components r)"
  shows "isNewerVersion other r l = version_older (components l) (components r)"
proof -
  from assms have r: "map (Number other) (split_on CHR ''.'' r) = exact_parts (components r)"
    and l: "map (Number other) (split_on CHR ''.'' l) = exact_parts (components l)"
    by (simp_all add: parts_exact)
  show ?thesis
    unfolding isNewerVersion_def Let_def r l version_older_def
    by (auto simp: loop_exact list_ex_iff list_all_iff max.commute)
qed

text \<open>
  C9, as the claim states it, fails: with the local version \<open>9007199254740993.0\<close> and
  the remote version \<open>9007199254740992.1\<close> the local version is not older than the
  remote one (its first component is the greater), yet the comparator finds the remote
  version newer, because both first components convert to the same double, and
  \<open>updateIde\<close> does not report "already up to date": it clones, removes the web folder
  and installs the template's.
\<close>

theorem updateIde_rounding_counterexample:
  "valid_version ''9007199254740993.0'' \<and> valid_version ''9007199254740992.1''
   \<and> \<not> version_older (components ''9007199254740993.0'') (components ''9007199254740992.1'')
   \<and> lookup newer_web [''pkg'', ''web'', ''package.json'']
       = Some (File ''9007199254740993.0'')
   \<and> (case updateIde rounding_env (world_of newer_web) of
         Some (Returned u, w') \<Rightarrow>
           List.member (calls w') (Rm [''pkg'', ''web''])
           \<and> lookup (fs w') [''pkg'', ''web'', ''package.json''] = Some (File ''2.0.0'')
           \<and> out w' =
               [OutInfo ''Updating DevFlow IDE from 9007199254740993.0 to 9007199254740992.1...'',
                OutSuccess ''Repository cloned'',
                OutSuccess ''Existing web folder removed'',
                OutSuccess ''Web folder installed at /pkg/web'',
                OutSuccess ''Temporary files cleaned up'',
                OutSuccess ''DevFlow IDE updated successfully'']
       | _ \<Rightarrow> False)"
proof -
  have v: "valid_version ''9007199254740993.0'' \<and> valid_version ''9007199254740992.1''
   \<and> \<not> version_older (components ''9007199254740993.0'') (components ''9007199254740992.1'')
   \<and> lookup newer_web [''pkg'', ''web'', ''package.json'']
       = Some (File ''9007199254740993.0'')"
    by (simp add: valid_version_def is_digit_def version_older_def components_def
          component_at_def dec_value_def digit_value_def newer_web_def upt_rec_numeral)
  have n: "isNewerVersion nan_everywhere ''9007199254740992.1'' ''9007199254740993.0''"
    by (simp add: version_eval)
  have "(case updateIde rounding_env (world_of newer_web) of
         Some (Returned u, w') \<Rightarrow>
           List.member (calls w') (Rm [''pkg'', ''web''])
           \<and> lookup (fs w') [''pkg'', ''web'', ''package.json''] = Some (File ''2.0.0'')
           \<and> out w' =
               [OutInfo ''Updating DevFlow IDE from 9007199254740993.0 to 9007199254740992.1...'',
                OutSuccess ''Repository cloned'',
                OutSuccess ''Existing web folder removed'',
                OutSuccess ''Web folder installed at /pkg/web'',
                OutSuccess ''Temporary files cleaned up'',
                OutSuccess ''DevFlow IDE updated successfully'']
       | _ \<Rightarrow> False)"
    using n
    by (simp add: updateIde_def pathExists_def checkForUpdate_def getLocalVersion_def
          getRemoteVersion_def setupWebFolder_def git_clone_def try_finally_def
          copyDirectory_def copyDirectory_run.simps readdir_def list_dir_def mkdir_def rm_def
          rounding_env_def sample_env_def world_of_def newer_web_def sample_template_def
          serve_version_def body_is_version_def join_def show_nat.simps digit_char_def
          path_string_def REPO_URL_def text_of_def io_defs Let_def)
  with v show ?thesis by blast
qed

text \<open>
  C9 (amended). When the web folder exists, \<open>updateIde\<close> checks the versions first (the
  request for the remote version is its first call), and if either version cannot be
  determined, or both are dotted-numeric with all components below \<open>2^53\<close> and the
  local version is not older than the remote one, it reports "already up to date" and
  returns: it has made no other call, there is no clone, and the file system is
  unchanged. If both are such versions and the local one is older, it does not stop
  there: it announces the update and goes on to \<open>setupWebFolder\<close>.
\<close>

theorem updateIde_version_gate:
  assumes present: "lookup (fs w) (packageRoot env @ [''web'']) \<noteq> None"
    and localV: "localV = (case read_file (fs w) (packageRoot env @ [''web'', ''package.json'']) of
                             Inl e \<Rightarrow> None
                           | Inr content \<Rightarrow> json_version env content)"
    and remoteV: "remoteV = (case http_get env REMOTE_PACKAGE_JSON_URL of
                               None \<Rightarrow> None
                             | Some body \<Rightarrow> json_version env body)"
  shows "(localV = None \<or> remoteV = None
          \<or> (\<exists>l r. localV = Some l \<and> remoteV = Some r
                   \<and> valid_version l \<and> valid_version r
                   \<and> list_all (\<lambda>c. c < 2 ^ 53) (components l @ components r)
                   \<and> \<not> version_older (components l) (components r))
          \<longrightarrow> (\<exists>message.
                 updateIde env w =
                   Some (Returned (),
                         w\<lparr>out := out w @ [OutSuccess message],
                           calls := calls w @ [Fetch REMOTE_PACKAGE_JSON_URL]\<rparr>)
                 \<and> str_includes message ''already up to date''))
       \<and> (\<forall>l r. localV = Some l \<and> remoteV = Some r
                 \<and> valid_version l \<and> valid_version r
                 \<and> list_all (\<lambda>c. c < 2 ^ 53) (components l @ components r)
                 \<and> version_older (components l) (components r)
          \<longrightarrow> updateIde env w =
                seq [emit (OutInfo (''Updating DevFlow IDE from '' @ l @ '' to '' @ r @ ''...'')),
                     seq [setupWebFolder env (packageRoot env) (packageRoot env @ [''web'']) True,
                          emit (OutSuccess ''DevFlow IDE updated successfully'')] ]
                  (w\<lparr>calls := calls w @ [Fetch REMOTE_PACKAGE_JSON_URL]\<rparr>))"
proof -
  let ?web = "packageRoot env @ [''web'']"
  let ?w1 = "w\<lparr>calls := calls w @ [Fetch REMOTE_PACKAGE_JSON_URL]\<rparr>"
  let ?newer = "(case (localV, remoteV) of
                   (Some l, Some r) \<Rightarrow> isNewerVersion (number_other env) r l
                 | _ \<Rightarrow> False)"
  let ?vc = "\<lparr>localVersion = localV, remoteVersion = remoteV, hasUpdate = ?newer\<rparr>"
  have j: "join (packageRoot env) ''web'' = ?web" by (simp add: join_def)
  have jp: "join ?web ''package.json'' = packageRoot env @ [''web'', ''package.json'']"
    by (simp add: join_def)
  have loc: "getLocalVersion env ?web w = Some (Returned localV, w)"
    unfolding getLocalVersion_def jp localV
    by (simp add: io_defs split: sum.split)
  have rem: "getRemoteVersion env w = Some (Returned remoteV, ?w1)"
    by (simp add: getRemoteVersion_def remoteV)
  have chk: "checkForUpdate env ?web w = Some (Returned ?vc, ?w1)"
    using loc rem by (simp add: checkForUpdate_def bind_io_def ret_def)
  from present have ex: "pathExists ?web w = Some (Returned True, w)"
    by (auto simp: pathExists_def io_defs)
  have run: "updateIde env w =
          (if \<not> ?newer then emit (OutSuccess (up_to_date_message ?vc)) ?w1
           else seq [emit (OutInfo (''Updating DevFlow IDE from '' @ text_of localV @ '' to ''
                              @ text_of remoteV @ ''...'')),
                     seq [setupWebFolder env (packageRoot env) ?web True,
                          emit (OutSuccess ''DevFlow IDE updated successfully'')] ] ?w1)"
    using ex chk by (simp add: updateIde_def Let_def j bind_io_def)
  show ?thesis
  proof (intro conjI impI allI)
    assume h: "localV = None \<or> remoteV = None
          \<or> (\<exists>l r. localV = Some l \<and> remoteV = Some r
                   \<and> valid_version l \<and> valid_version r
                   \<and> list_all (\<lambda>c. c < 2 ^ 53) (components l @ components r)
                   \<and> \<not> version_older (components l) (components r))"
    have "\<not> ?newer"
    proof -
      from h consider "localV = None" | "remoteV = None"
        | l r where "localV = Some l" "remoteV = Some r" "valid_version l" "valid_version r"
            "list_all (\<lambda>c. c < 2 ^ 53) (components l @ components r)"
            "\<not> version_older (components l) (components r)"
        by blast
      then show ?thesis
      proof cases
        case 1 then show ?thesis by simp
      next
        case 2 then show ?thesis by (simp split: option.split)
      next
        case 3
        with newer_iff_older [of l r "number_other env"] show ?thesis by simp
      qed
    qed
    with run have "updateIde env w =
        Some (Returned (), ?w1\<lparr>out := out ?w1 @ [OutSuccess (up_to_date_message ?vc)]\<rparr>)"
      by (simp add: emit_def)
    then show "\<exists>message.
                 updateIde env w =
                   Some (Returned (),
                         w\<lparr>out := out w @ [OutSuccess message],
                           calls := calls w @ [Fetch REMOTE_PACKAGE_JSON_URL]\<rparr>)
                 \<and> str_includes message ''already up to date''"
      using up_to_date_message_includes [of ?vc]
      by (intro exI [of _ "up_to_date_message ?vc"]) simp
  next
    fix l r
    assume h: "localV = Some l \<and> remoteV = Some r
                 \<and> valid_version l \<and> valid_version r
                 \<and> list_all (\<lambda>c. c < 2 ^ 53) (components l @ components r)
                 \<and> version_older (components l) (components r)"
    with newer_iff_older [of l r "number_other env"] have "?newer" by simp
    with run h show "updateIde env w =
                seq [emit (OutInfo (''Updating DevFlow IDE from '' @ l @ '' to '' @ r @ ''...'')),
                     seq [setupWebFolder env (packageRoot env) (packageRoot env @ [''web'']) True,
                          emit (OutSuccess ''DevFlow IDE updated successfully'')] ]
                  (w\<lparr>calls := calls w @ [Fetch REMOTE_PACKAGE_JSON_URL]\<rparr>)"
      by (simp add: text_of_def)
  qed
qed

theorem updateIde_version_gate_witness:
  "lookup (fs (world_of installed_web)) (packageRoot sample_env @ [''web'']) \<noteq> None
   \<and> valid_version ''2.0.0'' \<and> valid_version ''2.0.1''
   \<and> list_all (\<lambda>c. c < 2 ^ 53) (components ''2.0.0'' @ components ''2.0.0'')
   \<and> list_all (\<lambda>c. c < 2 ^ 53) (components ''2.0.0'' @ components ''2.0.1'')
   \<and> \<not> version_older (components ''2.0.0'') (components ''2.0.0'')
   \<and> version_older (components ''2.0.0'') (components ''2.0.1'')
   \<and> (\<exists>message.
         updateIde sample_env (world_of installed_web) =
           Some (Returned (),
                 (world_of installed_web)\<lparr>out := [OutSuccess message],
                   calls := [Fetch REMOTE_PACKAGE_JSON_URL]\<rparr>)
         \<and> str_includes message ''already up to date'')
   \<and> updateIde update_env (world_of installed_web) =
       seq [emit (OutInfo ''Updating DevFlow IDE from 2.0.0 to 2.0.1...''),
            seq [setupWebFolder update_env [''pkg''] [''pkg'', ''web''] True,
                 emit (OutSuccess ''DevFlow IDE updated successfully'')] ]
         ((world_of installed_web)\<lparr>calls := [Fetch REMOTE_PACKAGE_JSON_URL]\<rparr>)"
proof -
  have p: "lookup (fs (world_of installed_web)) (packageRoot sample_env @ [''web'']) \<noteq> None"
    and p2: "lookup (fs (world_of installed_web)) (packageRoot update_env @ [''web'']) \<noteq> None"
    by (simp_all add: world_of_def installed_web_def sample_env_def update_env_def)
  have l: "Some ''2.0.0'' = (case read_file (fs (world_of installed_web))
                  (packageRoot sample_env @ [''web'', ''package.json'']) of
                             Inl e \<Rightarrow> None
                           | Inr content \<Rightarrow> json_version sample_env content)"
    and l2: "Some ''2.0.0'' = (case read_file (fs (world_of installed_web))
                  (packageRoot update_env @ [''web'', ''package.json'']) of
                             Inl e \<Rightarrow> None
                           | Inr content \<Rightarrow> json_version update_env content)"
    by (simp_all add: world_of_def installed_web_def sample_env_def update_env_def
          read_file_def body_is_version_def)
  have r: "Some ''2.0.0'' = (case http_get sample_env REMOTE_PACKAGE_JSON_URL of
                               None \<Rightarrow> None
                             | Some body \<Rightarrow> json_version sample_env body)"
    and r2: "Some ''2.0.1'' = (case http_get update_env REMOTE_PACKAGE_JSON_URL of
                               None \<Rightarrow> None
                             | Some body \<Rightarrow> json_version update_env body)"
    by (simp_all add: sample_env_def update_env_def serve_version_def body_is_version_def)
  have v: "valid_version ''2.0.0'' \<and> valid_version ''2.0.1''
   \<and> list_all (\<lambda>c. c < 2 ^ 53) (components ''2.0.0'' @ components ''2.0.0'')
   \<and> list_all (\<lambda>c. c < 2 ^ 53) (components ''2.0.0'' @ components ''2.0.1'')
   \<and> \<not> version_older (components ''2.0.0'') (components ''2.0.0'')
   \<and> version_older (components ''2.0.0'') (components ''2.0.1'')"
    by (simp add: valid_version_def is_digit_def version_older_def components_def
          component_at_def dec_value_def digit_value_def upt_rec_numeral)
  have root: "packageRoot update_env = [''pkg'']"
    by (simp add: update_env_def sample_env_def)
  have w0: "out (world_of installed_web) = []" "calls (world_of installed_web) = []"
    by (simp_all add: world_of_def)
  from updateIde_version_gate [OF p l r] v w0
  have a: "\<exists>message.
         updateIde sample_env (world_of installed_web) =
           Some (Returned (),
                 (world_of installed_web)\<lparr>out := [OutSuccess message],
                   calls := [Fetch REMOTE_PACKAGE_JSON_URL]\<rparr>)
         \<and> str_includes message ''already up to date''"
    by simp
  from updateIde_version_gate [OF p2 l2 r2] v w0 root
  have b: "updateIde update_env (world_of installed_web) =
       seq [emit (OutInfo ''Updating DevFlow IDE from 2.0.0 to 2.0.1...''),
            seq [setupWebFolder update_env [''pkg''] [''pkg'', ''web''] True,
                 emit (OutSuccess ''DevFlow IDE updated successfully'')] ]
         ((world_of installed_web)\<lparr>calls := [Fetch REMOTE_PACKAGE_JSON_URL]\<rparr>)"
    by simp
  from p v a b show ?thesis by blast
qed

end
